theory Spec2Isabelle
  imports Complex_Main "HOL-Library.Word" "HOL-Library.Monad_Syntax" "HOL-Library.Signed_Division"
begin

section \<open>Data model of the UI state (ui.h)\<close>

text \<open>
  Conventions of the embedding.
  \<^item> C++ \<open>float\<close> and \<open>double\<close> values are modelled as \<open>real\<close>: arithmetic is exact, there
    is no rounding, no infinity and no NaN. Where the source divides by a float that may be
    zero the model writes the case out.
  \<^item> C++ \<open>int\<close> is modelled as \<open>int\<close>; \<open>/\<close> on ints is \<open>sdiv\<close> (truncation towards zero),
    a conversion \<open>int(f)\<close> of a float is \<open>c_trunc\<close>.
  \<^item> \<open>uint64_t\<close> frame counters are \<open>64 word\<close>.
  \<^item> A function of the source whose behaviour is undefined or aborts on some input (a read or
    write outside an array or a message list, a failed \<open>assert\<close>, an integer division by
    zero) returns an \<open>option\<close>, and \<open>None\<close> stands for that outcome.
\<close>

datatype UIStatus = STATUS_DISENGAGED | STATUS_ENGAGED | STATUS_WARNING | STATUS_ALERT

text \<open>\<open>cereal::PandaState::PandaType\<close>: only the enumerator \<open>UNKNOWN\<close> is named by the sources.\<close>

datatype PandaType = UNKNOWN | PandaTypeOther nat

record Rect =
  rect_x :: int
  rect_y :: int
  rect_w :: int
  rect_h :: int

definition mkRect :: "int \<Rightarrow> int \<Rightarrow> int \<Rightarrow> int \<Rightarrow> Rect" where
  "mkRect a b c d = \<lparr>rect_x = a, rect_y = b, rect_w = c, rect_h = d\<rparr>"

definition centerX :: "Rect \<Rightarrow> int" where
  "centerX r = rect_x r + rect_w r sdiv 2"

definition centerY :: "Rect \<Rightarrow> int" where
  "centerY r = rect_y r + rect_h r sdiv 2"

definition right :: "Rect \<Rightarrow> int" where
  "right r = rect_x r + rect_w r"

definition bottom :: "Rect \<Rightarrow> int" where
  "bottom r = rect_y r + rect_h r"

record vertex_data =
  vert_x :: real
  vert_y :: real

text \<open>\<open>line_vertices_data\<close>: the array \<open>v\<close> has \<open>TRAJECTORY_SIZE * 2\<close> elements.\<close>

record line_vertices_data =
  v :: "vertex_data list"
  cnt :: int

text \<open>\<open>vec3\<close> and \<open>mat3\<close> (row major, \<open>v[0..8]\<close>) of selfdrive/common/mat.h.\<close>

datatype vec3 = Vec3 real real real

datatype mat3 = Mat3 real real real real real real real real real

text \<open>The six floats of a NanoVG affine transform, \<open>t[0..5]\<close>.\<close>

datatype xform = Xform real real real real real real

text \<open>The readers of the cereal messages, with the fields the UI reads.\<close>

record XYZTData =
  getX :: "real list"
  getY :: "real list"
  getZ :: "real list"

record LeadDataV3 =
  lead_getProb :: real
  lead_getX :: "real list"
  lead_getY :: "real list"

record ModelDataV2 =
  getPosition :: XYZTData
  getLaneLines :: "XYZTData list"
  getLaneLineProbs :: "real list"
  getRoadEdges :: "XYZTData list"
  getRoadEdgeStds :: "real list"
  getLeadsV3 :: "LeadDataV3 list"

record CarState =
  getFrictionBrakePercent :: int
  getOnePedalModeActive :: bool
  getCoastOnePedalModeActive :: bool

datatype AlertSize = NONE | SMALL | MID | FULL

datatype AlertStatus = NORMAL | USER_PROMPT | CRITICAL

record ControlsState =
  getVCruise :: real
  getAlertSize :: AlertSize
  getAlertStatus :: AlertStatus
  getEnabled :: bool

record PandaState =
  getPandaType :: PandaType
  getIgnitionLine :: bool
  getIgnitionCan :: bool

text \<open>
  What \<open>update_state\<close> reads from the \<open>SubMaster\<close>: the frame counter, the per-topic
  \<open>updated\<close> flag and \<open>rcv_frame\<close>, and the latest message of each topic.
\<close>

record SubMaster =
  frame :: "64 word"
  updated :: "string \<Rightarrow> bool"
  rcv_frame :: "string \<Rightarrow> 64 word"
  msg_carState :: CarState
  msg_controlsState :: ControlsState
  msg_modelV2 :: ModelDataV2
  msg_liveCalibration_rpyCalib :: "real list"
  msg_pandaState :: PandaState
  msg_carParams_openpilotLongitudinalControl :: bool
  msg_deviceState_started :: bool
  msg_longitudinalPlan_dynamicFollowLevel :: real
  msg_lateralPlan_lanelessMode :: bool

text \<open>
  The key/value store behind \<open>Params()\<close>: \<open>getBool\<close> of a key, and \<open>std::stoi\<close> of the
  string stored under a key, which throws when the string is no number (\<open>None\<close>).
\<close>

record Params =
  getBool :: "string \<Rightarrow> bool"
  get_stoi :: "string \<Rightarrow> int option"

record UIScene =
  view_from_calib :: mat3
  world_objects_visible :: bool
  screen_dim_modes_v :: "real list"
  screen_dim_mode_max :: int
  screen_dim_mode_cur :: int
  screen_dim_mode :: int
  screen_dim_mode_last :: int
  screen_dim_fade :: real
  screen_dim_fade_last_t :: real
  screen_dim_fade_step :: real
  screen_dim_fade_dur_up :: real
  screen_dim_fade_dur_down :: real
  screen_dim_touch_rect :: Rect
  pandaType :: PandaType
  measure_max_num_slots :: int
  measure_cur_num_slots :: int
  measure_slots :: "int list"
  measure_slots_rect :: Rect
  measure_slot_touch_rects :: "Rect list"
  lastTime :: real
  sessionInitTime :: real
  paramsCheckLast :: real
  paramsCheckFreq :: real
  onePedalModeActive :: bool
  disableDisengageOnGasEnabled :: bool
  brake_percent :: int
  brake_indicator_alpha :: real
  brake_indicator_last_t :: real
  accel_mode_button_enabled :: bool
  dynamic_follow_mode_button_enabled :: bool
  dynamic_follow_level :: real
  dynamic_follow_level_ui :: real
  dynamic_follow_last_t :: real
  one_pedal_fade :: real
  one_pedal_fade_last_t :: real
  car_state :: CarState
  controls_state :: ControlsState
  lane_line_probs :: "real list"
  road_edge_stds :: "real list"
  track_vertices :: line_vertices_data
  lane_line_vertices :: "line_vertices_data list"
  road_edge_vertices :: "line_vertices_data list"
  lead_vertices :: "vertex_data list"
  started :: bool
  ignition :: bool
  longitudinal_control :: bool
  lateralPlan_lanelessModeStatus :: bool

text \<open>
  \<open>UIState\<close>. The pointer \<open>vipc_client\<close> is one of \<open>vipc_client_rear\<close> and
  \<open>vipc_client_wide\<close>; of a client the model keeps its \<open>connected\<close> flag. \<open>vg\<close> is
  whether the NanoVG context pointer is set. \<open>started_prev\<close> is the static local of
  \<open>update_status\<close>.
\<close>

record UIState =
  vipc_client_is_wide :: bool
  vipc_client_rear_connected :: bool
  vipc_client_wide_connected :: bool
  started_prev :: bool
  fb_w :: int
  fb_h :: int
  vg :: bool
  status :: UIStatus
  scene :: UIScene
  car_space_transform :: xform
  wide_camera :: bool

text \<open>
  Constants and helpers that the sources use and that are declared in headers outside the
  sources at hand (selfdrive/common/modeldata.h, camera_common.h,
  common/transformations/orientation.hpp). They are parameters of the model.
\<close>

record ext_consts =
  TRAJECTORY_SIZE :: int
  MIN_DRAW_DISTANCE :: real
  MAX_DRAW_DISTANCE :: real
  fcam_intrinsic_matrix :: mat3
  ecam_intrinsic_matrix :: mat3
  euler2rot :: "real list \<Rightarrow> mat3"

definition UI_FREQ :: int where
  "UI_FREQ = 20"

definition bdr_s :: int where
  "bdr_s = 30"

definition footer_h :: int where
  "footer_h = 280"

definition brake_size :: int where
  "brake_size = 90"

definition face_wheel_radius :: int where
  "face_wheel_radius = 88"

definition fade_duration :: real where
  "fade_duration = 3 / 10"

definition fade_time_step :: real where
  "fade_time_step = 1 / fade_duration"

definition dynamic_follow_fade_duration :: real where
  "dynamic_follow_fade_duration = 5 / 10"

definition dynamic_follow_fade_step :: real where
  "dynamic_follow_fade_step = 1 / dynamic_follow_fade_duration"

text \<open>Conversion of a float to \<open>int\<close>: truncation towards zero.\<close>

definition c_trunc :: "real \<Rightarrow> int" where
  "c_trunc r = (if 0 \<le> r then \<lfloor>r\<rfloor> else \<lceil>r\<rceil>)"

text \<open>Read of element \<open>i\<close> of an array or message list; \<open>None\<close> outside it.\<close>

definition arr_get :: "'a list \<Rightarrow> int \<Rightarrow> 'a option" where
  "arr_get xs i = (if 0 \<le> i \<and> i < int (length xs) then Some (xs ! nat i) else None)"

text \<open>Write of element \<open>i\<close> of an array; \<open>None\<close> outside it.\<close>

definition arr_put :: "'a list \<Rightarrow> int \<Rightarrow> 'a \<Rightarrow> 'a list option" where
  "arr_put xs i a = (if 0 \<le> i \<and> i < int (length xs) then Some (xs[nat i := a]) else None)"

section \<open>Animation controllers of \<open>update_state\<close>\<close>

text \<open>
  Lines 447 to 459 of \<open>update_state\<close>: the brake indicator fades in while the friction
  brake is above 50 percent and fades out otherwise; \<open>t\<close> is \<open>seconds_since_boot()\<close>.
\<close>

definition update_state_brake_indicator :: "real \<Rightarrow> UIScene \<Rightarrow> UIScene" where
  "update_state_brake_indicator t sc =
     (let sc1 =
        (if brake_percent sc > 50 then
           (if brake_indicator_alpha sc < 1 then
              (let a = brake_indicator_alpha sc + fade_time_step * (t - brake_indicator_last_t sc)
               in sc\<lparr>brake_indicator_alpha := (if a > 1 then 1 else a)\<rparr>)
            else sc)
         else if brake_indicator_alpha sc > 0 then
           (let a = brake_indicator_alpha sc - fade_time_step * (t - brake_indicator_last_t sc)
            in sc\<lparr>brake_indicator_alpha := (if a < 0 then 0 else a)\<rparr>)
         else sc)
      in sc1\<lparr>brake_indicator_last_t := t\<rparr>)"

text \<open>
  Lines 461 to 474: the cross-fade between the max-speed box (\<open>-1\<close>) and the one-pedal icon
  (\<open>1\<close>); \<open>st\<close> is \<open>s->status\<close>.
\<close>

definition one_pedal_cond :: "UIStatus \<Rightarrow> UIScene \<Rightarrow> bool" where
  "one_pedal_cond st sc \<longleftrightarrow>
     (getOnePedalModeActive (car_state sc) \<or> getCoastOnePedalModeActive (car_state sc))
     \<or> (st = STATUS_DISENGAGED \<and> getVCruise (controls_state sc) \<le> 3
         \<and> (onePedalModeActive sc \<or> disableDisengageOnGasEnabled sc))"

definition update_state_one_pedal_fade :: "real \<Rightarrow> UIStatus \<Rightarrow> UIScene \<Rightarrow> UIScene" where
  "update_state_one_pedal_fade t st sc =
     (let sc1 =
        (if t - sessionInitTime sc > 3 then
           (if one_pedal_cond st sc then
              (let f = one_pedal_fade sc + fade_time_step * (t - one_pedal_fade_last_t sc)
               in sc\<lparr>one_pedal_fade := (if f > 1 then 1 else f)\<rparr>)
            else if one_pedal_fade sc > - 1 then
              (let f = one_pedal_fade sc - fade_time_step * (t - one_pedal_fade_last_t sc)
               in sc\<lparr>one_pedal_fade := (if f < - 1 then - 1 else f)\<rparr>)
            else sc)
         else sc)
      in sc1\<lparr>one_pedal_fade_last_t := t\<rparr>)"

text \<open>Lines 476 to 491: the displayed follow level eases towards the planner's level.\<close>

definition update_state_dynamic_follow :: "real \<Rightarrow> UIScene \<Rightarrow> UIScene" where
  "update_state_dynamic_follow t sc =
     (let sc1 =
        (if dynamic_follow_level sc \<noteq> dynamic_follow_level_ui sc then
           (if dynamic_follow_level sc > dynamic_follow_level_ui sc then
              (let u = dynamic_follow_level_ui sc
                         + dynamic_follow_fade_step * (t - dynamic_follow_last_t sc)
               in sc\<lparr>dynamic_follow_level_ui :=
                     (if u > dynamic_follow_level sc then dynamic_follow_level sc else u)\<rparr>)
            else
              (let u = dynamic_follow_level_ui sc
                         - dynamic_follow_fade_step * (t - dynamic_follow_last_t sc)
               in sc\<lparr>dynamic_follow_level_ui :=
                     (if u < dynamic_follow_level sc then dynamic_follow_level sc else u)\<rparr>))
         else sc)
      in sc1\<lparr>dynamic_follow_last_t := t\<rparr>)"

section \<open>Calibration and projection (ui.cc)\<close>

text \<open>
  Modelled from the spec: \<open>matvecmul3\<close> of selfdrive/common/mat.h is not among the sources at
  hand; the spec's "applies calibration rotation, then camera intrinsic projection" is the
  product of a row-major 3x3 matrix with a vector.
\<close>

fun matvecmul3 :: "mat3 \<Rightarrow> vec3 \<Rightarrow> vec3" where
  "matvecmul3 (Mat3 a0 a1 a2 a3 a4 a5 a6 a7 a8) (Vec3 b0 b1 b2) =
     Vec3 (a0 * b0 + a1 * b1 + a2 * b2) (a3 * b0 + a4 * b1 + a5 * b2) (a6 * b0 + a7 * b1 + a8 * b2)"

text \<open>
  Modelled from the spec: \<open>nvgTransformPoint\<close> belongs to the NanoVG library; the spec's
  "affine device transform (scale + translate)" of the point \<open>(sx, sy)\<close> by \<open>t[0..5]\<close>.
\<close>

fun nvgTransformPoint :: "xform \<Rightarrow> real \<Rightarrow> real \<Rightarrow> vertex_data" where
  "nvgTransformPoint (Xform t0 t1 t2 t3 t4 t5) sx sy =
     \<lparr>vert_x = sx * t0 + sy * t2 + t4, vert_y = sx * t1 + sy * t3 + t5\<rparr>"

fun vec3_v0 :: "vec3 \<Rightarrow> real" where
  "vec3_v0 (Vec3 a b c) = a"

fun vec3_v1 :: "vec3 \<Rightarrow> real" where
  "vec3_v1 (Vec3 a b c) = b"

fun vec3_v2 :: "vec3 \<Rightarrow> real" where
  "vec3_v2 (Vec3 a b c) = c"

text \<open>
  \<open>calib_frame_to_full_frame\<close> writes the projected point to \<open>out\<close> and returns whether it
  lies within the margin around the framebuffer; the model returns both. With a depth
  \<open>KEp.v[2]\<close> of zero the float division gives an infinity or a NaN, which the affine
  transform keeps non-finite, so every comparison of the return expression fails: the model
  returns \<open>False\<close> there (and the point it pairs with it stands for a non-finite one).
\<close>

definition calib_KEp :: "ext_consts \<Rightarrow> UIState \<Rightarrow> real \<Rightarrow> real \<Rightarrow> real \<Rightarrow> vec3" where
  "calib_KEp c s in_x in_y in_z =
     (let pt = Vec3 in_x in_y in_z;
          Ep = matvecmul3 (view_from_calib (scene s)) pt
      in matvecmul3 (if wide_camera s then ecam_intrinsic_matrix c
                     else fcam_intrinsic_matrix c) Ep)"

definition calib_frame_to_full_frame ::
  "ext_consts \<Rightarrow> UIState \<Rightarrow> real \<Rightarrow> real \<Rightarrow> real \<Rightarrow> vertex_data \<times> bool" where
  "calib_frame_to_full_frame c s in_x in_y in_z =
     (let margin = 500;
          KEp = calib_KEp c s in_x in_y in_z;
          x = vec3_v0 KEp / vec3_v2 KEp;
          y = vec3_v1 KEp / vec3_v2 KEp;
          out = nvgTransformPoint (car_space_transform s) x y
      in (out,
          vec3_v2 KEp \<noteq> 0
          \<and> vert_x out \<ge> - margin \<and> vert_x out \<le> real_of_int (fb_w s) + margin
          \<and> vert_y out \<ge> - margin \<and> vert_y out \<le> real_of_int (fb_h s) + margin))"

text \<open>\<open>ui_init_vision\<close>: the textures it creates are outside the model.\<close>

definition ui_init_vision :: "UIState \<Rightarrow> UIState" where
  "ui_init_vision s = s\<lparr>scene := (scene s)\<lparr>world_objects_visible := False\<rparr>\<rparr>"

text \<open>
  The loop of \<open>get_path_length_idx\<close>, from index \<open>i\<close> with the current \<open>max_idx\<close>.
\<close>

function get_path_length_idx_loop ::
  "ext_consts \<Rightarrow> real list \<Rightarrow> real \<Rightarrow> int \<Rightarrow> int \<Rightarrow> int option" where
  "get_path_length_idx_loop c line_x path_height i max_idx =
     (if i < TRAJECTORY_SIZE c then
        (case arr_get line_x i of
           None \<Rightarrow> None
         | Some xi \<Rightarrow>
             if xi < path_height then get_path_length_idx_loop c line_x path_height (i + 1) i
             else Some max_idx)
      else Some max_idx)"
  by pat_completeness auto
termination
  by (relation "measure (\<lambda>(c, line_x, path_height, i, max_idx). nat (TRAJECTORY_SIZE c - i))") auto

declare get_path_length_idx_loop.simps [simp del]

definition get_path_length_idx :: "ext_consts \<Rightarrow> XYZTData \<Rightarrow> real \<Rightarrow> int option" where
  "get_path_length_idx c line path_height =
     get_path_length_idx_loop c (getX line) path_height 0 0"

definition update_leads_i :: "ext_consts \<Rightarrow> ModelDataV2 \<Rightarrow> int \<Rightarrow> UIState \<Rightarrow> UIState option" where
  "update_leads_i c model i s =
     do {
       lead \<leftarrow> arr_get (getLeadsV3 model) i;
       if lead_getProb lead > 5 / 10 then
         do {
           x0 \<leftarrow> arr_get (lead_getX lead) 0;
           idx \<leftarrow> get_path_length_idx c (getPosition model) x0;
           z \<leftarrow> arr_get (getZ (getPosition model)) idx;
           y0 \<leftarrow> arr_get (lead_getY lead) 0;
           lv \<leftarrow> arr_put (lead_vertices (scene s)) i
                  (fst (calib_frame_to_full_frame c s x0 y0 (z + 122 / 100)));
           Some (s\<lparr>scene := (scene s)\<lparr>lead_vertices := lv\<rparr>\<rparr>)
         }
       else Some s
     }"

definition update_leads :: "ext_consts \<Rightarrow> ModelDataV2 \<Rightarrow> UIState \<Rightarrow> UIState option" where
  "update_leads c model s =
     do {
       s1 \<leftarrow> update_leads_i c model 0 s;
       update_leads_i c model 1 s1
     }"

text \<open>Point \<open>i\<close> of a line, shifted by \<open>- y_off\<close> and \<open>z_off\<close>, projected.\<close>

definition line_point ::
  "ext_consts \<Rightarrow> UIState \<Rightarrow> XYZTData \<Rightarrow> real \<Rightarrow> real \<Rightarrow> int \<Rightarrow> (vertex_data \<times> bool) option" where
  "line_point c s line y_off z_off i =
     do {
       lx \<leftarrow> arr_get (getX line) i;
       ly \<leftarrow> arr_get (getY line) i;
       lz \<leftarrow> arr_get (getZ line) i;
       Some (calib_frame_to_full_frame c s lx (ly - y_off) (lz + z_off))
     }"

text \<open>
  One loop of \<open>update_line_data\<close> over the indices \<open>is\<close>: the projected point is written at
  the cursor \<open>k\<close> (the pointer \<open>v\<close> as an index into \<open>pvd->v\<close>), and the cursor advances by
  the returned \<open>bool\<close>.
\<close>

fun update_line_data_loop ::
  "(int \<Rightarrow> (vertex_data \<times> bool) option) \<Rightarrow> int list \<Rightarrow> vertex_data list \<times> int
   \<Rightarrow> (vertex_data list \<times> int) option" where
  "update_line_data_loop pr [] st = Some st"
| "update_line_data_loop pr (i # is) st =
     do {
       p \<leftarrow> pr i;
       buf \<leftarrow> arr_put (fst st) (snd st) (fst p);
       update_line_data_loop pr is (buf, if snd p then snd st + 1 else snd st)
     }"

definition update_line_data ::
  "ext_consts \<Rightarrow> UIState \<Rightarrow> XYZTData \<Rightarrow> real \<Rightarrow> real \<Rightarrow> line_vertices_data \<Rightarrow> int
   \<Rightarrow> line_vertices_data option" where
  "update_line_data c s line y_off z_off pvd max_idx =
     do {
       st1 \<leftarrow> update_line_data_loop (line_point c s line y_off z_off) [0..max_idx] (v pvd, 0);
       st2 \<leftarrow> update_line_data_loop (line_point c s line (- y_off) z_off) (rev [0..max_idx]) st1;
       if snd st2 \<le> int (length (fst st2)) then Some \<lparr>v = fst st2, cnt = snd st2\<rparr> else None
     }"

definition std_clamp :: "real \<Rightarrow> real \<Rightarrow> real \<Rightarrow> real" where
  "std_clamp a lo hi = (if a < lo then lo else if hi < a then hi else a)"

fun update_model_lane_lines ::
  "ext_consts \<Rightarrow> ModelDataV2 \<Rightarrow> int \<Rightarrow> int list \<Rightarrow> UIState \<Rightarrow> UIState option" where
  "update_model_lane_lines c model max_idx [] s = Some s"
| "update_model_lane_lines c model max_idx (i # is) s =
     do {
       p \<leftarrow> arr_get (getLaneLineProbs model) i;
       probs \<leftarrow> arr_put (lane_line_probs (scene s)) i p;
       line \<leftarrow> arr_get (getLaneLines model) i;
       pvd \<leftarrow> arr_get (lane_line_vertices (scene s)) i;
       pvd' \<leftarrow> update_line_data c s line (25 / 1000 * p) 0 pvd max_idx;
       lvs \<leftarrow> arr_put (lane_line_vertices (scene s)) i pvd';
       update_model_lane_lines c model max_idx is
         (s\<lparr>scene := (scene s)\<lparr>lane_line_probs := probs, lane_line_vertices := lvs\<rparr>\<rparr>)
     }"

fun update_model_road_edges ::
  "ext_consts \<Rightarrow> ModelDataV2 \<Rightarrow> int \<Rightarrow> int list \<Rightarrow> UIState \<Rightarrow> UIState option" where
  "update_model_road_edges c model max_idx [] s = Some s"
| "update_model_road_edges c model max_idx (i # is) s =
     do {
       e \<leftarrow> arr_get (getRoadEdgeStds model) i;
       stds \<leftarrow> arr_put (road_edge_stds (scene s)) i e;
       line \<leftarrow> arr_get (getRoadEdges model) i;
       pvd \<leftarrow> arr_get (road_edge_vertices (scene s)) i;
       pvd' \<leftarrow> update_line_data c s line (25 / 1000) 0 pvd max_idx;
       evs \<leftarrow> arr_put (road_edge_vertices (scene s)) i pvd';
       update_model_road_edges c model max_idx is
         (s\<lparr>scene := (scene s)\<lparr>road_edge_stds := stds, road_edge_vertices := evs\<rparr>\<rparr>)
     }"

text \<open>
  The draw distance of the path in \<open>update_model\<close>: the local \<open>max_distance\<close> after the
  lead-vehicle adjustment (lines 155 to 156 and 178 to 182).
\<close>

definition update_model_max_distance :: "ext_consts \<Rightarrow> ModelDataV2 \<Rightarrow> real option" where
  "update_model_max_distance c model =
     do {
       x_last \<leftarrow> arr_get (getX (getPosition model)) (TRAJECTORY_SIZE c - 1);
       lead_one \<leftarrow> arr_get (getLeadsV3 model) 0;
       let max_distance = std_clamp x_last (MIN_DRAW_DISTANCE c) (MAX_DRAW_DISTANCE c);
       if lead_getProb lead_one > 5 / 10 then
         do {
           x0 \<leftarrow> arr_get (lead_getX lead_one) 0;
           let lead_d = x0 * 2;
           Some (std_clamp (lead_d - min (lead_d * (35 / 100)) 10) 0 max_distance)
         }
       else Some max_distance
     }"

definition update_model :: "ext_consts \<Rightarrow> ModelDataV2 \<Rightarrow> UIState \<Rightarrow> UIState option" where
  "update_model c model s =
     do {
       x_last \<leftarrow> arr_get (getX (getPosition model)) (TRAJECTORY_SIZE c - 1);
       lane0 \<leftarrow> arr_get (getLaneLines model) 0;
       max_idx \<leftarrow> get_path_length_idx c lane0
                    (std_clamp x_last (MIN_DRAW_DISTANCE c) (MAX_DRAW_DISTANCE c));
       s1 \<leftarrow> update_model_lane_lines c model max_idx
               [0..int (length (lane_line_vertices (scene s))) - 1] s;
       s2 \<leftarrow> update_model_road_edges c model max_idx
               [0..int (length (road_edge_vertices (scene s1))) - 1] s1;
       max_distance \<leftarrow> update_model_max_distance c model;
       max_idx2 \<leftarrow> get_path_length_idx c (getPosition model) max_distance;
       tv \<leftarrow> update_line_data c s2 (getPosition model) (5 / 10) (122 / 100)
               (track_vertices (scene s2)) max_idx2;
       Some (s2\<lparr>scene := (scene s2)\<lparr>track_vertices := tv\<rparr>\<rparr>)
     }"

section \<open>The rest of \<open>update_state\<close> (ui.cc)\<close>

text \<open>Lines 196 to 212: the settings are polled when \<open>paramsCheckFreq\<close> seconds have passed.\<close>

definition update_state_params :: "real \<Rightarrow> Params \<Rightarrow> UIScene \<Rightarrow> UIScene option" where
  "update_state_params t p sc =
     (if t - paramsCheckLast sc > paramsCheckFreq sc then
        do {
          dim \<leftarrow> get_stoi p ''ScreenDimMode'';
          let sc1 = sc\<lparr>paramsCheckLast := t,
                       disableDisengageOnGasEnabled := getBool p ''DisableDisengageOnGas'',
                       screen_dim_mode := dim\<rparr>;
          let sc2 = (if disableDisengageOnGasEnabled sc1
                     then sc1\<lparr>onePedalModeActive := getBool p ''OnePedalMode''\<rparr> else sc1);
          _ \<leftarrow> (if accel_mode_button_enabled sc2 then get_stoi p ''AccelMode'' else Some 0);
          _ \<leftarrow> (if dynamic_follow_mode_button_enabled sc2 then get_stoi p ''DynamicFollow''
                else Some 0);
          Some sc2
        }
      else Some sc)"

text \<open>Lines 223 to 235: the tier chosen by the status \<open>st\<close>.\<close>

definition screen_dim_select :: "UIStatus \<Rightarrow> UIScene \<Rightarrow> UIScene option" where
  "screen_dim_select st sc =
     (if st = STATUS_WARNING then
        Some (sc\<lparr>screen_dim_mode_cur :=
                   (if screen_dim_mode sc + 1 > screen_dim_mode_max sc
                    then screen_dim_mode_max sc else screen_dim_mode sc + 1)\<rparr>)
      else if st = STATUS_ALERT then
        do {
          tv \<leftarrow> arr_get (screen_dim_modes_v sc) (screen_dim_mode_max sc);
          Some (sc\<lparr>screen_dim_mode_cur := screen_dim_mode_max sc, screen_dim_fade := tv\<rparr>)
        }
      else Some (sc\<lparr>screen_dim_mode_cur := screen_dim_mode sc\<rparr>))"

text \<open>Lines 237 to 240: the fade step is set anew when the tier has changed.\<close>

definition screen_dim_new_step :: "UIScene \<Rightarrow> UIScene option" where
  "screen_dim_new_step sc =
     (if screen_dim_mode_cur sc \<noteq> screen_dim_mode_last sc then
        do {
          target \<leftarrow> arr_get (screen_dim_modes_v sc) (screen_dim_mode_cur sc);
          vl \<leftarrow> arr_get (screen_dim_modes_v sc) (screen_dim_mode_last sc);
          let step = target - vl;
          Some (sc\<lparr>screen_dim_fade_step :=
                     step / (if step > 0 then screen_dim_fade_dur_up sc
                             else screen_dim_fade_dur_down sc)\<rparr>)
        }
      else Some sc)"

text \<open>Lines 242 to 251: the fade moves by the step and stops at the value of the tier.\<close>

definition screen_dim_ease :: "real \<Rightarrow> UIScene \<Rightarrow> UIScene option" where
  "screen_dim_ease t sc =
     do {
       target \<leftarrow> arr_get (screen_dim_modes_v sc) (screen_dim_mode_cur sc);
       let f = screen_dim_fade sc + screen_dim_fade_step sc * (t - screen_dim_fade_last_t sc);
       Some (if screen_dim_fade sc > target then
               sc\<lparr>screen_dim_fade := (if f < target then target else f)\<rparr>
             else if screen_dim_fade sc < target then
               sc\<lparr>screen_dim_fade := (if f > target then target else f)\<rparr>
             else sc)
     }"

text \<open>
  Lines 214 to 259: the screen dimming controller. \<open>screen_dim_fade\<close> scales the backlight
  (\<open>Device::updateBrightness\<close>), so a smaller value is a dimmer screen.
\<close>

definition update_state_screen_dim :: "real \<Rightarrow> UIState \<Rightarrow> UIState option" where
  "update_state_screen_dim t s =
     do {
       sc1 \<leftarrow>
         (let sc = scene s in
          if started sc then
            do {
              let maxspeed_rect = mkRect (bdr_s * 2) (c_trunc (real_of_int bdr_s * (15 / 10))) 184 202;
              let radius = 96;
              let center_x = centerX maxspeed_rect;
              let center_y = fb_h s - footer_h sdiv 2;
              let k = 1 + screen_dim_mode_max sc - screen_dim_mode sc;
              let sc_a = sc\<lparr>screen_dim_touch_rect :=
                             mkRect (center_x - k * radius) (center_y - k * radius)
                                    ((2 * k) * radius) ((2 * k) * radius)\<rparr>;
              sc_b \<leftarrow> screen_dim_select (status s) sc_a;
              sc_c \<leftarrow> screen_dim_new_step sc_b;
              screen_dim_ease t sc_c
            }
          else
            do {
              tv \<leftarrow> arr_get (screen_dim_modes_v sc) (screen_dim_mode_max sc);
              Some (sc\<lparr>screen_dim_mode_cur := screen_dim_mode_max sc,
                       screen_dim_fade := tv,
                       screen_dim_touch_rect := mkRect 1 1 1 1\<rparr>)
            });
       Some (s\<lparr>scene := sc1\<lparr>screen_dim_mode_last := screen_dim_mode_cur sc1,
                              screen_dim_fade_last_t := t\<rparr>\<rparr>)
     }"

text \<open>
  Lines 266 to 324, for the fields of the model: the controls and car state readers and the
  friction brake percentage.
\<close>

definition update_state_carState :: "SubMaster \<Rightarrow> UIScene \<Rightarrow> UIScene" where
  "update_state_carState sm sc =
     (let sc1 = (if started sc \<and> updated sm ''controlsState''
                 then sc\<lparr>controls_state := msg_controlsState sm, car_state := msg_carState sm\<rparr>
                 else sc)
      in if updated sm ''carState''
         then sc1\<lparr>car_state := msg_carState sm,
                  brake_percent := getFrictionBrakePercent (msg_carState sm)\<rparr>
         else sc1)"

text \<open>Lines 332 to 336.\<close>

definition update_state_modelV2 :: "ext_consts \<Rightarrow> SubMaster \<Rightarrow> UIState \<Rightarrow> UIState option" where
  "update_state_modelV2 c sm s =
     (if updated sm ''modelV2'' \<and> vg s then
        do {
          s1 \<leftarrow> update_model c (msg_modelV2 sm) s;
          update_leads c (msg_modelV2 sm) s1
        }
      else Some s)"

text \<open>The product of two 3x3 matrices (Eigen's \<open>*\<close>).\<close>

fun matmul3 :: "mat3 \<Rightarrow> mat3 \<Rightarrow> mat3" where
  "matmul3 (Mat3 a0 a1 a2 a3 a4 a5 a6 a7 a8) (Mat3 b0 b1 b2 b3 b4 b5 b6 b7 b8) =
     Mat3 (a0 * b0 + a1 * b3 + a2 * b6) (a0 * b1 + a1 * b4 + a2 * b7) (a0 * b2 + a1 * b5 + a2 * b8)
          (a3 * b0 + a4 * b3 + a5 * b6) (a3 * b1 + a4 * b4 + a5 * b7) (a3 * b2 + a4 * b5 + a5 * b8)
          (a6 * b0 + a7 * b3 + a8 * b6) (a6 * b1 + a7 * b4 + a8 * b7) (a6 * b2 + a7 * b5 + a8 * b8)"

definition view_from_device :: mat3 where
  "view_from_device = Mat3 0 1 0  0 0 1  1 0 0"

text \<open>Lines 337 to 353.\<close>

definition update_state_liveCalibration :: "ext_consts \<Rightarrow> SubMaster \<Rightarrow> UIScene \<Rightarrow> UIScene option" where
  "update_state_liveCalibration c sm sc =
     (if updated sm ''liveCalibration'' then
        do {
          r0 \<leftarrow> arr_get (msg_liveCalibration_rpyCalib sm) 0;
          r1 \<leftarrow> arr_get (msg_liveCalibration_rpyCalib sm) 1;
          r2 \<leftarrow> arr_get (msg_liveCalibration_rpyCalib sm) 2;
          Some (sc\<lparr>world_objects_visible := True,
                   view_from_calib := matmul3 view_from_device (euler2rot c [r0, r1, r2])\<rparr>)
        }
      else Some sc)"

text \<open>Lines 354 to 360.\<close>

definition update_state_pandaState :: "SubMaster \<Rightarrow> UIScene \<Rightarrow> UIScene" where
  "update_state_pandaState sm sc =
     (if updated sm ''pandaState'' then
        sc\<lparr>pandaType := getPandaType (msg_pandaState sm),
           ignition := (getIgnitionLine (msg_pandaState sm) \<or> getIgnitionCan (msg_pandaState sm))\<rparr>
      else if frame sm - rcv_frame sm ''pandaState'' > word_of_int (5 * UI_FREQ) then
        sc\<lparr>pandaType := UNKNOWN\<rparr>
      else sc)"

text \<open>Lines 361 to 363, 394, 424 to 445, for the fields of the model.\<close>

definition update_state_plans :: "SubMaster \<Rightarrow> UIScene \<Rightarrow> UIScene" where
  "update_state_plans sm sc =
     (let sc1 = (if updated sm ''carParams''
                 then sc\<lparr>longitudinal_control := msg_carParams_openpilotLongitudinalControl sm\<rparr>
                 else sc);
          sc2 = sc1\<lparr>started := (msg_deviceState_started sm \<and> ignition sc1)\<rparr>;
          sc3 = (if updated sm ''lateralPlan''
                 then sc2\<lparr>lateralPlan_lanelessModeStatus := msg_lateralPlan_lanelessMode sm\<rparr>
                 else sc2)
      in if updated sm ''longitudinalPlan''
         then sc3\<lparr>dynamic_follow_level := msg_longitudinalPlan_dynamicFollowLevel sm\<rparr>
         else sc3)"

definition update_state ::
  "ext_consts \<Rightarrow> real \<Rightarrow> Params \<Rightarrow> SubMaster \<Rightarrow> UIState \<Rightarrow> UIState option" where
  "update_state c t p sm s =
     do {
       sc1 \<leftarrow> update_state_params t p (scene s);
       s2 \<leftarrow> update_state_screen_dim t (s\<lparr>scene := sc1\<rparr>);
       s3 \<leftarrow> update_state_modelV2 c sm (s2\<lparr>scene := update_state_carState sm (scene s2)\<rparr>);
       sc4 \<leftarrow> update_state_liveCalibration c sm (scene s3);
       let sc5 = update_state_plans sm (update_state_pandaState sm sc4);
       let sc6 = update_state_dynamic_follow t
                   (update_state_one_pedal_fade t (status s3)
                      (update_state_brake_indicator t sc5));
       Some (s3\<lparr>scene := sc6\<lparr>lastTime := t\<rparr>\<rparr>)
     }"

section \<open>\<open>update_status\<close>, \<open>update_vision\<close> and the update of a tick (ui.cc)\<close>

text \<open>
  The key \<open>MeasureSlot%.2d\<close> of slot \<open>i\<close>. The array \<open>measure_slots\<close> has ten elements, so
  the key matters for \<open>i\<close> from 0 to 9 only.
\<close>

definition slotName :: "int \<Rightarrow> string" where
  "slotName i = ''MeasureSlot'' @ [char_of (48 + i sdiv 10), char_of (48 + i smod 10)]"

fun update_status_measure_slots :: "Params \<Rightarrow> int list \<Rightarrow> int list \<Rightarrow> int list option" where
  "update_status_measure_slots p [] slots = Some slots"
| "update_status_measure_slots p (i # is) slots =
     do {
       m \<leftarrow> get_stoi p (slotName i);
       slots' \<leftarrow> arr_put slots i m;
       update_status_measure_slots p is slots'
     }"

definition vipc_client_connected :: "UIState \<Rightarrow> bool" where
  "vipc_client_connected s =
     (if vipc_client_is_wide s then vipc_client_wide_connected s else vipc_client_rear_connected s)"

definition set_vipc_client_connected :: "bool \<Rightarrow> UIState \<Rightarrow> UIState" where
  "set_vipc_client_connected b s =
     (if vipc_client_is_wide s then s\<lparr>vipc_client_wide_connected := b\<rparr>
      else s\<lparr>vipc_client_rear_connected := b\<rparr>)"

text \<open>
  \<open>update_status\<close>, for the fields of the model. \<open>t\<close> is \<open>seconds_since_boot()\<close>, \<open>tici\<close> is
  \<open>Hardware::TICI()\<close>, and \<open>xf\<close> is the transform that NanoVG reports at the end of
  \<open>ui_resize\<close>.
\<close>

definition update_status ::
  "real \<Rightarrow> bool \<Rightarrow> xform \<Rightarrow> Params \<Rightarrow> SubMaster \<Rightarrow> UIState \<Rightarrow> UIState option" where
  "update_status t tici xf p sm s =
     do {
       let s1 = (if started (scene s) \<and> updated sm ''controlsState'' then
                   s\<lparr>status :=
                       (case getAlertStatus (msg_controlsState sm) of
                          USER_PROMPT \<Rightarrow> STATUS_WARNING
                        | CRITICAL \<Rightarrow> STATUS_ALERT
                        | NORMAL \<Rightarrow> (if getEnabled (msg_controlsState sm) then STATUS_ENGAGED
                                     else STATUS_DISENGAGED))\<rparr>
                 else s);
       s2 \<leftarrow>
         (if started (scene s1) \<noteq> started_prev s1 then
            (if started (scene s1) then
               do {
                 _ \<leftarrow> get_stoi p ''LanelessMode'';
                 bp \<leftarrow> get_stoi p ''FrictionBrakePercent'';
                 n \<leftarrow> get_stoi p ''MeasureNumSlots'';
                 slots \<leftarrow> update_status_measure_slots p
                            [0..measure_max_num_slots (scene s1) - 1] (measure_slots (scene s1));
                 let wide = (if tici then getBool p ''EnableWideCamera'' else False);
                 Some (s1\<lparr>status := STATUS_DISENGAGED,
                          wide_camera := wide,
                          car_space_transform := (if vg s1 then xf else car_space_transform s1),
                          vipc_client_is_wide := wide,
                          scene := (scene s1)
                            \<lparr>brake_percent := bp,
                             accel_mode_button_enabled := getBool p ''AccelModeButton'',
                             dynamic_follow_mode_button_enabled := getBool p ''DynamicFollowToggle'',
                             sessionInitTime := t,
                             measure_cur_num_slots := n,
                             measure_slots := slots\<rparr>\<rparr>)
               }
             else Some (set_vipc_client_connected False s1))
          else Some s1);
       Some (s2\<lparr>started_prev := started (scene s2)\<rparr>)
     }"

text \<open>
  \<open>update_vision\<close>: \<open>connect_ok\<close> is the result of \<open>vipc_client->connect(false)\<close>, which
  leaves the client connected when it succeeds. The received frame is outside the model.
\<close>

definition update_vision :: "bool \<Rightarrow> UIState \<Rightarrow> UIState" where
  "update_vision connect_ok s =
     (if \<not> vipc_client_connected s \<and> started (scene s) then
        (if connect_ok then ui_init_vision (set_vipc_client_connected True s) else s)
      else s)"

text \<open>What one call of \<open>QUIState::update\<close> takes from outside the UI state.\<close>

record tick_input =
  in_sm :: SubMaster
  in_params :: Params
  in_t_state :: real
  in_t_status :: real
  in_tici :: bool
  in_xform :: xform
  in_connect_ok :: bool

definition QUIState_update :: "ext_consts \<Rightarrow> tick_input \<Rightarrow> UIState \<Rightarrow> UIState option" where
  "QUIState_update c i s =
     do {
       s1 \<leftarrow> update_state c (in_t_state i) (in_params i) (in_sm i) s;
       s2 \<leftarrow> update_status (in_t_status i) (in_tici i) (in_xform i) (in_params i) (in_sm i) s1;
       Some (update_vision (in_connect_ok i) s2)
     }"

section \<open>Drawing (paint.cc)\<close>

text \<open>
  The calls that draw world-space geometry: \<open>ui_draw_line\<close> with a non-empty vertex buffer
  and \<open>draw_lead\<close>, with their arguments. The NanoVG calls below them are outside the model.
\<close>

datatype draw_cmd =
    is_Draw_line: Draw_line line_vertices_data
  | is_Draw_lead: Draw_lead LeadDataV3 vertex_data

definition ui_draw_line :: "line_vertices_data \<Rightarrow> draw_cmd list" where
  "ui_draw_line vd = (if cnt vd = 0 then [] else [Draw_line vd])"

definition ui_draw_vision_lane_lines :: "UIState \<Rightarrow> draw_cmd list" where
  "ui_draw_vision_lane_lines s =
     (if \<not> lateralPlan_lanelessModeStatus (scene s) then
        concat (map ui_draw_line (lane_line_vertices (scene s)))
        @ concat (map ui_draw_line (road_edge_vertices (scene s)))
      else [])
     @ ui_draw_line (track_vertices (scene s))"

definition ui_draw_world :: "SubMaster \<Rightarrow> UIState \<Rightarrow> draw_cmd list option" where
  "ui_draw_world sm s =
     (if longitudinal_control (scene s) then
        do {
          lead_one \<leftarrow> arr_get (getLeadsV3 (msg_modelV2 sm)) 0;
          lead_two \<leftarrow> arr_get (getLeadsV3 (msg_modelV2 sm)) 1;
          d1 \<leftarrow> (if lead_getProb lead_one > 5 / 10 then
                   do {
                     vd \<leftarrow> arr_get (lead_vertices (scene s)) 0;
                     Some [Draw_lead lead_one vd]
                   }
                 else Some []);
          d2 \<leftarrow> (if lead_getProb lead_two > 5 / 10 then
                   do {
                     x1 \<leftarrow> arr_get (lead_getX lead_one) 0;
                     x2 \<leftarrow> arr_get (lead_getX lead_two) 0;
                     if \<bar>x1 - x2\<bar> > 3 then
                       do {
                         vd \<leftarrow> arr_get (lead_vertices (scene s)) 1;
                         Some [Draw_lead lead_two vd]
                       }
                     else Some []
                   }
                 else Some []);
          Some (ui_draw_vision_lane_lines s @ d1 @ d2)
        }
      else Some (ui_draw_vision_lane_lines s))"

text \<open>
  The layout of \<open>ui_draw_measures\<close>: the bounding rectangle of the measure slots and the
  touch rectangle of every slot. With \<open>slot_y_rng_orig = 0\<close> the aspect ratio is a float
  division by zero and its conversions to \<open>int\<close> are undefined. First the touch rectangle
  of slot \<open>i\<close> (lines 1203, 1208 and 1250), then the loop over the slots.
\<close>

definition measure_slot_touch_rect :: "int \<Rightarrow> int \<Rightarrow> int \<Rightarrow> Rect \<Rightarrow> int \<Rightarrow> Rect" where
  "measure_slot_touch_rect slots_r slot_y_rng n r i =
     (let slot_x = rect_x r + (if n \<le> 5 then 0 else (if i < 5 then slots_r * 2 else 0));
          slot_y = rect_y r + (i smod 5) * slot_y_rng
      in mkRect slot_x slot_y (slots_r * 2) slot_y_rng)"

fun ui_draw_measures_slots ::
  "int \<Rightarrow> int \<Rightarrow> int \<Rightarrow> int list \<Rightarrow> UIScene \<Rightarrow> UIScene option" where
  "ui_draw_measures_slots slots_r slot_y_rng n [] sc = Some sc"
| "ui_draw_measures_slots slots_r slot_y_rng n (i # is) sc =
     do {
       _ \<leftarrow> arr_get (measure_slots sc) i;
       rs \<leftarrow> arr_put (measure_slot_touch_rects sc) i
               (measure_slot_touch_rect slots_r slot_y_rng n (measure_slots_rect sc) i);
       ui_draw_measures_slots slots_r slot_y_rng n is (sc\<lparr>measure_slot_touch_rects := rs\<rparr>)
     }"

text \<open>
  The first part of \<open>ui_draw_measures\<close> (lines 417 to 451), from the framebuffer size and the
  numbers of slots: the bounding rectangle, \<open>slots_r\<close> and \<open>slot_y_rng\<close>.
\<close>

definition ui_draw_measures_layout :: "int \<Rightarrow> int \<Rightarrow> int \<Rightarrow> int \<Rightarrow> (Rect \<times> int \<times> int) option" where
  "ui_draw_measures_layout w h n max_n =
     (let maxspeed_rect = mkRect (bdr_s * 2) (c_trunc (real_of_int bdr_s * (15 / 10))) 184 202;
          center_x = w - face_wheel_radius - bdr_s * 2;
          brake_y = h - footer_h sdiv 2;
          y_min = bottom maxspeed_rect + bdr_s sdiv 2;
          y_max = brake_y - brake_size - bdr_s sdiv 2;
          y_rng = y_max - y_min
      in if max_n = 0 then None
         else
           (let slot_y_rng =
                  (if n \<le> 4 then y_rng sdiv (if n < 3 then 3 else n)
                   else y_rng sdiv max_n * 2);
                slot_y_rng_orig = y_rng sdiv max_n * 2
            in if slot_y_rng_orig = 0 then None
               else
                 (let slot_aspect_ratio_ratio =
                        real_of_int slot_y_rng / real_of_int slot_y_rng_orig;
                      y_mid = (y_max + y_min) sdiv 2;
                      slots_y_rng = slot_y_rng * (if n \<le> 5 then n else 5);
                      slots_y_min = y_mid - (slots_y_rng sdiv 2);
                      slots_r_orig = brake_size + 6 + (if n \<le> 5 then 6 else 0);
                      slots_r =
                        (if n \<le> 4 then
                           c_trunc (real_of_int brake_size * slot_aspect_ratio_ratio + 12)
                         else brake_size + 6 + (if n \<le> 5 then 6 else 0));
                      center_x' = (if n \<le> 4 then center_x - (slots_r - slots_r_orig)
                                   else center_x);
                      slots_w = (if n \<le> 4 then 2 * slots_r
                                 else (if n \<le> 5 then 2 else 4) * slots_r);
                      slots_x = (if n \<le> 4 then center_x' - slots_r
                                 else (if n \<le> 5 then center_x' - slots_r
                                       else center_x' - 3 * slots_r))
                  in Some (mkRect slots_x slots_y_min slots_w slots_y_rng, slots_r, slot_y_rng))))"

definition ui_draw_measures :: "UIState \<Rightarrow> UIState option" where
  "ui_draw_measures s =
     (let sc = scene s; n = measure_cur_num_slots sc in
      if n \<noteq> 0 then
        do {
          lay \<leftarrow> ui_draw_measures_layout (fb_w s) (fb_h s) n (measure_max_num_slots sc);
          sc' \<leftarrow> ui_draw_measures_slots (fst (snd lay)) (snd (snd lay)) n [0..n - 1]
                   (sc\<lparr>measure_slots_rect := fst lay\<rparr>);
          Some (s\<lparr>scene := sc'\<rparr>)
        }
      else Some s)"

text \<open>
  \<open>ui_draw_vision\<close> and \<open>ui_draw\<close>: the world-space drawing and the measures. The header, the
  face and brake icons and the buttons write touch rectangles that are not fields of the
  model. The result is the state after the frame and the world-space draw calls made.
\<close>

definition ui_draw_vision :: "SubMaster \<Rightarrow> UIState \<Rightarrow> (UIState \<times> draw_cmd list) option" where
  "ui_draw_vision sm s =
     do {
       world \<leftarrow> (if world_objects_visible (scene s) then ui_draw_world sm s else Some []);
       s1 \<leftarrow> (if getAlertSize (msg_controlsState sm) = NONE
                  \<or> getAlertSize (msg_controlsState sm) = SMALL
               then ui_draw_measures s else Some s);
       Some (s1, world)
     }"

definition ui_draw :: "SubMaster \<Rightarrow> UIState \<Rightarrow> (UIState \<times> draw_cmd list) option" where
  "ui_draw sm s =
     (let draw_vision = (started (scene s) \<and> vipc_client_connected s)
      in if draw_vision then ui_draw_vision sm s else Some (s, []))"

section \<open>The initial state\<close>

text \<open>
  \<open>QUIState::ui_state = {0}\<close> with the default member initialisers of \<open>UIScene\<close> (ui.h), as
  the constructor of \<open>QUIState\<close> leaves it; \<open>w\<close> and \<open>h\<close> are the viewport size \<open>vwp_w\<close>,
  \<open>vwp_h\<close> and \<open>wide\<close> is the initial \<open>wide_camera\<close>.
\<close>

definition zero_vertex :: vertex_data where
  "zero_vertex = \<lparr>vert_x = 0, vert_y = 0\<rparr>"

definition zero_line_vertices :: "ext_consts \<Rightarrow> line_vertices_data" where
  "zero_line_vertices c = \<lparr>v = replicate (nat (TRAJECTORY_SIZE c * 2)) zero_vertex, cnt = 0\<rparr>"

definition zero_CarState :: CarState where
  "zero_CarState = \<lparr>getFrictionBrakePercent = 0, getOnePedalModeActive = False,
                     getCoastOnePedalModeActive = False\<rparr>"

definition zero_ControlsState :: ControlsState where
  "zero_ControlsState = \<lparr>getVCruise = 0, getAlertSize = NONE, getAlertStatus = NORMAL,
                          getEnabled = False\<rparr>"

definition UIScene_init :: "ext_consts \<Rightarrow> UIScene" where
  "UIScene_init c =
     \<lparr>view_from_calib = Mat3 0 0 0 0 0 0 0 0 0,
      world_objects_visible = False,
      screen_dim_modes_v = [1 / 100, 5 / 10, 1],
      screen_dim_mode_max = 2,
      screen_dim_mode_cur = 2,
      screen_dim_mode = 2,
      screen_dim_mode_last = 2,
      screen_dim_fade = - 1,
      screen_dim_fade_last_t = 0,
      screen_dim_fade_step = 1,
      screen_dim_fade_dur_up = 5 / 10,
      screen_dim_fade_dur_down = 2,
      screen_dim_touch_rect = mkRect 0 0 0 0,
      pandaType = UNKNOWN,
      measure_max_num_slots = 10,
      measure_cur_num_slots = 3,
      measure_slots = replicate 10 0,
      measure_slots_rect = mkRect 0 0 0 0,
      measure_slot_touch_rects = replicate 10 (mkRect 0 0 0 0),
      lastTime = 0,
      sessionInitTime = 0,
      paramsCheckLast = 0,
      paramsCheckFreq = 1 / 10,
      onePedalModeActive = False,
      disableDisengageOnGasEnabled = False,
      brake_percent = 0,
      brake_indicator_alpha = 0,
      brake_indicator_last_t = 0,
      accel_mode_button_enabled = False,
      dynamic_follow_mode_button_enabled = False,
      dynamic_follow_level = 0,
      dynamic_follow_level_ui = 0,
      dynamic_follow_last_t = 0,
      one_pedal_fade = - 1,
      one_pedal_fade_last_t = 0,
      car_state = zero_CarState,
      controls_state = zero_ControlsState,
      lane_line_probs = replicate 4 0,
      road_edge_stds = replicate 2 0,
      track_vertices = zero_line_vertices c,
      lane_line_vertices = replicate 4 (zero_line_vertices c),
      road_edge_vertices = replicate 2 (zero_line_vertices c),
      lead_vertices = replicate 2 zero_vertex,
      started = False,
      ignition = False,
      longitudinal_control = False,
      lateralPlan_lanelessModeStatus = False\<rparr>"

definition UIState_init :: "ext_consts \<Rightarrow> int \<Rightarrow> int \<Rightarrow> bool \<Rightarrow> UIState" where
  "UIState_init c w h wide =
     \<lparr>vipc_client_is_wide = False,
      vipc_client_rear_connected = False,
      vipc_client_wide_connected = False,
      started_prev = False,
      fb_w = w,
      fb_h = h,
      vg = False,
      status = STATUS_DISENGAGED,
      scene = UIScene_init c,
      car_space_transform = Xform 0 0 0 0 0 0,
      wide_camera = wide\<rparr>"

section \<open>Concrete inputs and runs\<close>

text \<open>
  Values for the constants of the headers outside the sources at hand, for the evaluation of
  the model on concrete inputs: a trajectory of 33 samples, a draw distance between 10 and
  100 metres, two pinhole cameras, and a calibration without rotation.
\<close>

definition example_consts :: ext_consts where
  "example_consts =
     \<lparr>TRAJECTORY_SIZE = 33, MIN_DRAW_DISTANCE = 10, MAX_DRAW_DISTANCE = 100,
      fcam_intrinsic_matrix = Mat3 910 0 582  0 910 437  0 0 1,
      ecam_intrinsic_matrix = Mat3 620 0 964  0 620 604  0 0 1,
      euler2rot = (\<lambda>rpy. Mat3 1 0 0  0 1 0  0 0 1)\<rparr>"

text \<open>
  An onroad state on a 2160 by 1080 framebuffer, calibrated without rotation, with the
  identity as the device transform.
\<close>

definition example_state :: UIState where
  "example_state =
     (UIState_init example_consts 2160 1080 False)
       \<lparr>vg := True,
        car_space_transform := Xform 1 0 0 1 0 0,
        scene := (UIScene_init example_consts)
                   \<lparr>view_from_calib := view_from_device, started := True, ignition := True\<rparr>\<rparr>"

text \<open>
  How far a pixel lies outside the framebuffer: the largest of its distances beyond the four
  edges, 0 for a pixel inside.
\<close>

definition outside_by :: "UIState \<Rightarrow> vertex_data \<Rightarrow> real" where
  "outside_by s p =
     max 0 (max (max (- vert_x p) (vert_x p - real_of_int (fb_w s)))
                (max (- vert_y p) (vert_y p - real_of_int (fb_h s))))"


text \<open>A \<open>SubMaster\<close> on which no topic was ever received, and a settings store of zeros.\<close>

definition example_sm :: SubMaster where
  "example_sm =
     \<lparr>frame = 0, updated = (\<lambda>topic. False), rcv_frame = (\<lambda>topic. 0),
      msg_carState = zero_CarState,
      msg_controlsState = zero_ControlsState,
      msg_modelV2 = \<lparr>getPosition = \<lparr>getX = [], getY = [], getZ = []\<rparr>, getLaneLines = [],
                     getLaneLineProbs = [], getRoadEdges = [], getRoadEdgeStds = [],
                     getLeadsV3 = []\<rparr>,
      msg_liveCalibration_rpyCalib = [],
      msg_pandaState = \<lparr>getPandaType = UNKNOWN, getIgnitionLine = False, getIgnitionCan = False\<rparr>,
      msg_carParams_openpilotLongitudinalControl = False,
      msg_deviceState_started = False,
      msg_longitudinalPlan_dynamicFollowLevel = 0,
      msg_lateralPlan_lanelessMode = False\<rparr>"

definition example_params :: Params where
  "example_params = \<lparr>getBool = (\<lambda>key. False), get_stoi = (\<lambda>key. Some 0)\<rparr>"




text \<open>
  A model message: a straight path with a sample every 3 metres from 3 to 99 metres, four lane lines and two road
  edges beside it, a lead 5 metres ahead with probability 0.9 and a second, improbable one.
\<close>

definition example_line :: "real \<Rightarrow> XYZTData" where
  "example_line y = \<lparr>getX = map (\<lambda>i. 3 + 3 * real i) [0..<33], getY = replicate 33 y,
                     getZ = replicate 33 0\<rparr>"

definition example_model :: ModelDataV2 where
  "example_model =
     \<lparr>getPosition = example_line 0,
      getLaneLines = [example_line (- 5), example_line (- 2), example_line 2, example_line 5],
      getLaneLineProbs = [9 / 10, 9 / 10, 9 / 10, 9 / 10],
      getRoadEdges = [example_line (- 6), example_line 6],
      getRoadEdgeStds = [1 / 10, 1 / 10],
      getLeadsV3 = [\<lparr>lead_getProb = 9 / 10, lead_getX = [5], lead_getY = [0]\<rparr>,
                    \<lparr>lead_getProb = 1 / 10, lead_getX = [60], lead_getY = [0]\<rparr>]\<rparr>"

text \<open>
  Whether point \<open>i\<close> of a line is projected into the margin, and the number of such points
  among the \<open>2 * (max_idx + 1)\<close> points that \<open>update_line_data\<close> projects.
\<close>

definition line_point_visible ::
  "ext_consts \<Rightarrow> UIState \<Rightarrow> XYZTData \<Rightarrow> real \<Rightarrow> real \<Rightarrow> int \<Rightarrow> bool" where
  "line_point_visible c s line y_off z_off i =
     (case line_point c s line y_off z_off i of None \<Rightarrow> False | Some p \<Rightarrow> snd p)"

definition visible_points ::
  "ext_consts \<Rightarrow> UIState \<Rightarrow> XYZTData \<Rightarrow> real \<Rightarrow> real \<Rightarrow> int \<Rightarrow> int" where
  "visible_points c s line y_off z_off max_idx =
     int (length (filter (line_point_visible c s line y_off z_off) [0..max_idx]))
     + int (length (filter (line_point_visible c s line (- y_off) z_off) [0..max_idx]))"

text \<open>
  The vertex that \<open>update_leads\<close> computes for a lead of probability above 0.5: the lead's
  position at the height of the path there plus 1.22, projected.
\<close>

definition lead_vertex :: "ext_consts \<Rightarrow> ModelDataV2 \<Rightarrow> UIState \<Rightarrow> LeadDataV3 \<Rightarrow> vertex_data option" where
  "lead_vertex c model s lead =
     do {
       x0 \<leftarrow> arr_get (lead_getX lead) 0;
       idx \<leftarrow> get_path_length_idx c (getPosition model) x0;
       z \<leftarrow> arr_get (getZ (getPosition model)) idx;
       y0 \<leftarrow> arr_get (lead_getY lead) 0;
       Some (fst (calib_frame_to_full_frame c s x0 y0 (z + 122 / 100)))
     }"

text \<open>
  The example message as the latest \<open>modelV2\<close>, and the example state of a car whose
  longitudinal control is openpilot's.
\<close>

definition example_drive_sm :: SubMaster where
  "example_drive_sm = example_sm\<lparr>msg_modelV2 := example_model\<rparr>"

definition example_long_state :: UIState where
  "example_long_state = example_state\<lparr>scene := (scene example_state)\<lparr>longitudinal_control := True\<rparr>\<rparr>"

text \<open>The example state after the measures have been laid out once.\<close>

definition example_measures_state :: UIState where
  "example_measures_state =
     example_state\<lparr>scene := (scene example_state)
       \<lparr>measure_slots_rect := mkRect 1790 262 324 573,
        measure_slot_touch_rects :=
          [mkRect 1790 262 324 191, mkRect 1790 453 324 191, mkRect 1790 644 324 191]
          @ replicate 7 (mkRect 0 0 0 0)\<rparr>\<rparr>"

text \<open>
  What happens to the UI state over time: calls of \<open>QUIState::update\<close> and calls of
  \<open>ui_draw\<close>, in any order. \<open>ui_run\<close> gives the final state and the world-space draw calls
  made; \<open>calibration_received\<close> holds of an update in which \<open>liveCalibration\<close> was received.
\<close>

datatype ui_event = Ev_update tick_input | Ev_draw SubMaster

fun ui_run :: "ext_consts \<Rightarrow> ui_event list \<Rightarrow> UIState \<Rightarrow> (UIState \<times> draw_cmd list) option" where
  "ui_run c [] s = Some (s, [])"
| "ui_run c (Ev_update i # es) s =
     do {
       s1 \<leftarrow> QUIState_update c i s;
       ui_run c es s1
     }"
| "ui_run c (Ev_draw sm # es) s =
     do {
       r1 \<leftarrow> ui_draw sm s;
       r2 \<leftarrow> ui_run c es (fst r1);
       Some (fst r2, snd r1 @ snd r2)
     }"

fun calibration_received :: "ui_event \<Rightarrow> bool" where
  "calibration_received (Ev_update i) = updated (in_sm i) ''liveCalibration''"
| "calibration_received (Ev_draw sm) = False"

text \<open>
  An update in which nothing is received while the device is started and the camera
  connects, and a \<open>SubMaster\<close> on which a calibration without rotation has arrived.
\<close>

definition example_tick :: tick_input where
  "example_tick =
     \<lparr>in_sm = example_sm\<lparr>msg_deviceState_started := True\<rparr>,
      in_params = example_params,
      in_t_state = 1,
      in_t_status = 1,
      in_tici = False,
      in_xform = Xform 1 0 0 1 0 0,
      in_connect_ok = True\<rparr>"

definition example_calibration_sm :: SubMaster where
  "example_calibration_sm =
     example_sm\<lparr>updated := (\<lambda>topic. topic = ''liveCalibration''),
                msg_liveCalibration_rpyCalib := [0, 0, 0],
                msg_deviceState_started := True\<rparr>"

section \<open>Properties of the animation controllers\<close>




text \<open>
  Claim C1. One step of each fade controller with a non-negative elapsed time keeps the value
  in its domain and moves it towards the target without passing it: the brake indicator stays
  in \<open>[0, 1]\<close> and is the old value plus (minus) the step, cut off exactly at 1 (at 0); the
  one-pedal fade stays in \<open>[-1, 1]\<close> and is cut off at 1 (at -1); the displayed follow level
  moves towards \<open>dynamic_follow_level\<close> and is cut off exactly there.
\<close>

theorem C1_controllers_stay_in_domain:
  fixes t :: real
  assumes "brake_indicator_last_t sc \<le> t" and "one_pedal_fade_last_t sc \<le> t"
    and "dynamic_follow_last_t sc \<le> t"
    and "0 \<le> brake_indicator_alpha sc" and "brake_indicator_alpha sc \<le> 1"
    and "- 1 \<le> one_pedal_fade sc" and "one_pedal_fade sc \<le> 1"
  shows "(let a = brake_indicator_alpha sc; a' = brake_indicator_alpha (update_state_brake_indicator t sc);
              step = fade_time_step * (t - brake_indicator_last_t sc) in
            0 \<le> a' \<and> a' \<le> 1
          \<and> (if brake_percent sc > 50 then a \<le> a' \<and> a' = min 1 (a + step)
              else a' \<le> a \<and> a' = max 0 (a - step)))
       \<and> (let f = one_pedal_fade sc; f' = one_pedal_fade (update_state_one_pedal_fade t st sc);
              step = fade_time_step * (t - one_pedal_fade_last_t sc) in
            - 1 \<le> f' \<and> f' \<le> 1
          \<and> (if t - sessionInitTime sc > 3 then
                (if one_pedal_cond st sc then f \<le> f' \<and> f' = min 1 (f + step)
                 else f' \<le> f \<and> f' = max (- 1) (f - step))
              else f' = f))
       \<and> (let l = dynamic_follow_level sc; u = dynamic_follow_level_ui sc;
              u' = dynamic_follow_level_ui (update_state_dynamic_follow t sc);
              step = dynamic_follow_fade_step * (t - dynamic_follow_last_t sc) in
            (if u < l then u \<le> u' \<and> u' \<le> l \<and> u' = min l (u + step)
             else if l < u then l \<le> u' \<and> u' \<le> u \<and> u' = max l (u - step)
             else u' = u))"
proof -
  have s1: "0 \<le> fade_time_step * (t - brake_indicator_last_t sc)"
    using assms(1) by (simp add: fade_time_step_def fade_duration_def)
  have s2: "0 \<le> fade_time_step * (t - one_pedal_fade_last_t sc)"
    using assms(2) by (simp add: fade_time_step_def fade_duration_def)
  have s3: "0 \<le> dynamic_follow_fade_step * (t - dynamic_follow_last_t sc)"
    using assms(3) by (simp add: dynamic_follow_fade_step_def dynamic_follow_fade_duration_def)
  show ?thesis
    apply (intro conjI)
    subgoal using s1 assms(4,5) by (auto simp: update_state_brake_indicator_def Let_def)
    subgoal using s2 assms(6,7) by (auto simp: update_state_one_pedal_fade_def Let_def)
    subgoal using s3 by (auto simp: update_state_dynamic_follow_def Let_def)
    done
qed

theorem C1_controllers_stay_in_domain_witness:
  "(let sc = (UIScene_init example_consts)
               \<lparr>brake_percent := 60, brake_indicator_last_t := 39 / 10,
                one_pedal_fade := 0, one_pedal_fade_last_t := 39 / 10,
                dynamic_follow_level := 2, dynamic_follow_last_t := 39 / 10\<rparr>;
        t = 4
    in brake_indicator_last_t sc \<le> t \<and> one_pedal_fade_last_t sc \<le> t
     \<and> dynamic_follow_last_t sc \<le> t
     \<and> 0 \<le> brake_indicator_alpha sc \<and> brake_indicator_alpha sc \<le> 1
     \<and> - 1 \<le> one_pedal_fade sc \<and> one_pedal_fade sc \<le> 1
     \<and> brake_indicator_alpha (update_state_brake_indicator t sc) = 1 / 3
     \<and> one_pedal_fade (update_state_one_pedal_fade t STATUS_ENGAGED sc) = - 1 / 3
     \<and> dynamic_follow_level_ui (update_state_dynamic_follow t sc) = 2 / 10)"
  using C1_controllers_stay_in_domain [of "(UIScene_init example_consts)
               \<lparr>brake_percent := 60, brake_indicator_last_t := 39 / 10,
                one_pedal_fade := 0, one_pedal_fade_last_t := 39 / 10,
                dynamic_follow_level := 2, dynamic_follow_last_t := 39 / 10\<rparr>" 4 STATUS_ENGAGED]
  by (simp add: UIScene_init_def Let_def fade_time_step_def fade_duration_def
      dynamic_follow_fade_step_def dynamic_follow_fade_duration_def one_pedal_cond_def
      zero_CarState_def zero_ControlsState_def)



section \<open>Properties of \<open>update_state\<close>\<close>

lemma pandaType_plans [simp]: "pandaType (update_state_plans sm sc) = pandaType sc"
  by (simp add: update_state_plans_def Let_def)

lemma pandaType_brake [simp]: "pandaType (update_state_brake_indicator t sc) = pandaType sc"
  by (simp add: update_state_brake_indicator_def Let_def)

lemma pandaType_one_pedal [simp]: "pandaType (update_state_one_pedal_fade t st sc) = pandaType sc"
  by (simp add: update_state_one_pedal_fade_def Let_def)

lemma pandaType_dynamic_follow [simp]: "pandaType (update_state_dynamic_follow t sc) = pandaType sc"
  by (simp add: update_state_dynamic_follow_def Let_def)

lemma stale_word:
  fixes f r :: "64 word"
  assumes "r \<le> f" "unat f - unat r > 100"
  shows "f - r > word_of_int (5 * UI_FREQ)"
proof -
  have "unat (f - r) = unat f - unat r" using assms(1) by (simp add: unat_sub)
  then have "unat (100 :: 64 word) < unat (f - r)" using assms(2) by simp
  then show ?thesis by (simp add: UI_FREQ_def word_less_nat_alt)
qed


lemma frame_irrelevant:
  "update_state_modelV2 c (sm\<lparr>frame := f\<rparr>) s = update_state_modelV2 c sm s"
  "update_state_carState (sm\<lparr>frame := f\<rparr>) sc = update_state_carState sm sc"
  "update_state_liveCalibration c (sm\<lparr>frame := f\<rparr>) sc = update_state_liveCalibration c sm sc"
  by (simp_all add: update_state_modelV2_def update_state_carState_def update_state_liveCalibration_def)

lemma update_state_None:
  "update_state c t p sm s = None \<longleftrightarrow>
     (do {
       sc1 \<leftarrow> update_state_params t p (scene s);
       s2 \<leftarrow> update_state_screen_dim t (s\<lparr>scene := sc1\<rparr>);
       s3 \<leftarrow> update_state_modelV2 c sm (s2\<lparr>scene := update_state_carState sm (scene s2)\<rparr>);
       update_state_liveCalibration c sm (scene s3)
     }) = None"
  unfolding update_state_def Let_def
  by (simp add: bind_eq_None_conv bind_eq_Some_conv)

lemma update_state_Some:
  assumes "update_state c t p sm s = Some s'"
  shows "\<exists>s3 sc4. s' = s3\<lparr>scene := (update_state_dynamic_follow t
                   (update_state_one_pedal_fade t (status s3)
                      (update_state_brake_indicator t
                         (update_state_plans sm (update_state_pandaState sm sc4)))))\<lparr>lastTime := t\<rparr>\<rparr>"
  using assms unfolding update_state_def Let_def
  by (simp add: bind_eq_Some_conv) blast


text \<open>
  Claim C7. When \<open>pandaState\<close> was not updated in this tick and was last received more than
  \<open>5 * UI_FREQ\<close> frames ago, \<open>update_state\<close> leaves \<open>pandaType = UNKNOWN\<close>. The branch has no
  error outcome: whether \<open>update_state\<close> fails does not depend on the frame counter.
\<close>

theorem C7_stale_pandaState_unknown:
  assumes "\<not> updated sm ''pandaState''"
    and "rcv_frame sm ''pandaState'' \<le> frame sm"
    and "unat (frame sm) - unat (rcv_frame sm ''pandaState'') > nat (5 * UI_FREQ)"
  shows "pandaType (update_state_pandaState sm sc) = UNKNOWN
       \<and> (\<forall>s'. update_state c t p sm s = Some s' \<longrightarrow> pandaType (scene s') = UNKNOWN)
       \<and> (update_state c t p sm s = None
            \<longleftrightarrow> update_state c t p (sm\<lparr>frame := rcv_frame sm ''pandaState''\<rparr>) s = None)"
proof -
  have w: "frame sm - rcv_frame sm ''pandaState'' > word_of_int (5 * UI_FREQ)"
    using stale_word [OF assms(2)] assms(3) by (simp add: UI_FREQ_def)
  have a: "pandaType (update_state_pandaState sm sc') = UNKNOWN" for sc'
    using assms(1) w by (simp add: update_state_pandaState_def)
  have b: "pandaType (scene s') = UNKNOWN" if "update_state c t p sm s = Some s'" for s'
    using update_state_Some [OF that] a by auto
  have c: "update_state c t p sm s = None
            \<longleftrightarrow> update_state c t p (sm\<lparr>frame := rcv_frame sm ''pandaState''\<rparr>) s = None"
    by (simp only: update_state_None frame_irrelevant)
  show ?thesis using a b c by blast
qed

lemma example_update_state_stale: "update_state example_consts 1 example_params (example_sm\<lparr>frame := 301, rcv_frame := (\<lambda>topic. 200)\<rparr>)
          (example_state\<lparr>scene := (scene example_state)\<lparr>pandaType := PandaTypeOther 3\<rparr>\<rparr>) \<noteq> None"
  by (simp add: update_state_None example_state_def example_params_def example_sm_def
      update_state_params_def UIScene_init_def UIState_init_def update_state_screen_dim_def
      screen_dim_select_def screen_dim_new_step_def screen_dim_ease_def
      update_state_modelV2_def update_state_liveCalibration_def arr_get_def Let_def)

theorem C7_stale_pandaState_unknown_witness:
  "\<not> updated (example_sm\<lparr>frame := 301, rcv_frame := (\<lambda>topic. 200)\<rparr>) ''pandaState''
   \<and> (200 :: 64 word) \<le> 301
   \<and> unat (301 :: 64 word) - unat (200 :: 64 word) > nat (5 * UI_FREQ)
   \<and> pandaType (update_state_pandaState (example_sm\<lparr>frame := 301, rcv_frame := (\<lambda>topic. 200)\<rparr>)
        ((scene example_state)\<lparr>pandaType := PandaTypeOther 3\<rparr>)) = UNKNOWN
   \<and> map_option (pandaType \<circ> scene)
        (update_state example_consts 1 example_params
          (example_sm\<lparr>frame := 301, rcv_frame := (\<lambda>topic. 200)\<rparr>)
          (example_state\<lparr>scene := (scene example_state)\<lparr>pandaType := PandaTypeOther 3\<rparr>\<rparr>))
      = Some UNKNOWN"
  using C7_stale_pandaState_unknown [of "example_sm\<lparr>frame := 301, rcv_frame := (\<lambda>topic. 200)\<rparr>"
       "(scene example_state)\<lparr>pandaType := PandaTypeOther 3\<rparr>" example_consts 1 example_params
       "example_state\<lparr>scene := (scene example_state)\<lparr>pandaType := PandaTypeOther 3\<rparr>\<rparr>"] example_update_state_stale
  by (auto simp: example_sm_def UI_FREQ_def)

section \<open>Properties of the projection\<close>

lemma example_projection:
  "calib_frame_to_full_frame example_consts example_state 10 y 0
   = (\<lparr>vert_x = 91 * y + 582, vert_y = 437\<rparr>, - 500 \<le> 91 * y + 582 \<and> 91 * y + 582 \<le> 2660)"
  by (auto simp: calib_frame_to_full_frame_def calib_KEp_def example_state_def example_consts_def
      UIState_init_def UIScene_init_def view_from_device_def Let_def)

lemma example_state_fb: "fb_w example_state = 2160" "fb_h example_state = 1080"
  by (simp_all add: example_state_def UIState_init_def)

text \<open>
  Claim C3 (as amended). \<open>calib_frame_to_full_frame\<close> returns \<open>false\<close> exactly when the depth
  is zero or the projected pixel lies more than the margin of 500 pixels outside the
  framebuffer; so a pixel 600 pixels outside gives \<open>false\<close>, as one 1600 pixels outside does.
\<close>

theorem C3_visible_iff_within_margin:
  "(snd (calib_frame_to_full_frame c s in_x in_y in_z) \<longleftrightarrow>
      vec3_v2 (calib_KEp c s in_x in_y in_z) \<noteq> 0
      \<and> outside_by s (fst (calib_frame_to_full_frame c s in_x in_y in_z)) \<le> 500)
   \<and> (outside_by s (fst (calib_frame_to_full_frame c s in_x in_y in_z)) = 600
        \<longrightarrow> \<not> snd (calib_frame_to_full_frame c s in_x in_y in_z))
   \<and> (outside_by s (fst (calib_frame_to_full_frame c s in_x in_y in_z)) = 1600
        \<longrightarrow> \<not> snd (calib_frame_to_full_frame c s in_x in_y in_z))"
  by (auto simp: calib_frame_to_full_frame_def outside_by_def Let_def)

theorem C3_visible_iff_within_margin_witness:
  "outside_by example_state
     (fst (calib_frame_to_full_frame example_consts example_state 10 (2178 / 91) 0)) = 600
   \<and> \<not> snd (calib_frame_to_full_frame example_consts example_state 10 (2178 / 91) 0)
   \<and> outside_by example_state
     (fst (calib_frame_to_full_frame example_consts example_state 10 (3178 / 91) 0)) = 1600
   \<and> \<not> snd (calib_frame_to_full_frame example_consts example_state 10 (3178 / 91) 0)
   \<and> outside_by example_state
     (fst (calib_frame_to_full_frame example_consts example_state 10 (2078 / 91) 0)) = 500
   \<and> snd (calib_frame_to_full_frame example_consts example_state 10 (2078 / 91) 0)"
  using C3_visible_iff_within_margin [of example_consts example_state 10 "2178 / 91" 0]
    C3_visible_iff_within_margin [of example_consts example_state 10 "3178 / 91" 0]
    C3_visible_iff_within_margin [of example_consts example_state 10 "2078 / 91" 0]
  by (simp add: example_projection outside_by_def example_state_fb)


text \<open>
  The claim as stated fails: with the margin of 500, a point whose pixel lands 600 pixels to
  the right of a 2160 pixel wide framebuffer is reported as not visible.
\<close>

theorem C3_margin_600_counterexample:
  "outside_by example_state
     (fst (calib_frame_to_full_frame example_consts example_state 10 (2178 / 91) 0)) = 600
   \<and> \<not> snd (calib_frame_to_full_frame example_consts example_state 10 (2178 / 91) 0)"
  by (simp add: example_projection outside_by_def example_state_fb)

section \<open>Properties of the screen dimming controller\<close>

lemma arr_get_modes:
  "arr_get [a, b, c] 0 = Some a" "arr_get [a, b, c] 1 = Some b" "arr_get [a, b, c] 2 = Some c"
  by (simp_all add: arr_get_def)





lemma update_state_screen_dim_started:
  assumes "started (scene s)"
  shows "update_state_screen_dim t s =
     do {
       sc_b \<leftarrow> screen_dim_select (status s)
                 ((scene s)\<lparr>screen_dim_touch_rect :=
                    (let k = 1 + screen_dim_mode_max (scene s) - screen_dim_mode (scene s);
                         cx = centerX (mkRect (bdr_s * 2) (c_trunc (real_of_int bdr_s * (15 / 10))) 184 202);
                         cy = fb_h s - footer_h sdiv 2
                     in mkRect (cx - k * 96) (cy - k * 96) ((2 * k) * 96) ((2 * k) * 96))\<rparr>);
       sc_c \<leftarrow> screen_dim_new_step sc_b;
       sc1 \<leftarrow> screen_dim_ease t sc_c;
       Some (s\<lparr>scene := sc1\<lparr>screen_dim_mode_last := screen_dim_mode_cur sc1,
                              screen_dim_fade_last_t := t\<rparr>\<rparr>)
     }"
  using assms by (simp add: update_state_screen_dim_def Let_def)










section \<open>Properties of the draw distance\<close>

lemma std_clamp_bounds: "lo \<le> hi \<Longrightarrow> lo \<le> std_clamp a lo hi \<and> std_clamp a lo hi \<le> hi"
  by (simp add: std_clamp_def)

text \<open>
  Claim C5 (as amended). With a lead of probability above 0.5 at the distance \<open>x0\<close>, the draw
  distance of the path is \<open>2 * x0 - min (0.35 * 2 * x0) 10\<close> clamped to the range from 0 to
  the draw distance without a lead: never negative, never longer than without a lead, and
  65 percent of twice the gap where that lies in the range and the gap is at most 100/7
  metres. The lower bound of the clamp is 0 and not the minimum draw distance.
\<close>

theorem C5_lead_draw_distance:
  assumes "arr_get (getX (getPosition model)) (TRAJECTORY_SIZE c - 1) = Some x_last"
    and "arr_get (getLeadsV3 model) 0 = Some lead_one"
    and "lead_getProb lead_one > 5 / 10"
    and "arr_get (lead_getX lead_one) 0 = Some x0"
    and "0 \<le> MIN_DRAW_DISTANCE c" and "MIN_DRAW_DISTANCE c \<le> MAX_DRAW_DISTANCE c"
  shows "\<exists>d. update_model_max_distance c model = Some d
          \<and> 0 \<le> d
          \<and> d \<le> std_clamp x_last (MIN_DRAW_DISTANCE c) (MAX_DRAW_DISTANCE c)
          \<and> d = std_clamp (2 * x0 - min (2 * x0 * (35 / 100)) 10) 0
                   (std_clamp x_last (MIN_DRAW_DISTANCE c) (MAX_DRAW_DISTANCE c))
          \<and> (0 \<le> x0 \<and> 2 * x0 * (35 / 100) \<le> 10
               \<and> 2 * x0 * (65 / 100) \<le> std_clamp x_last (MIN_DRAW_DISTANCE c) (MAX_DRAW_DISTANCE c)
              \<longrightarrow> d = (65 / 100) * (2 * x0))"
proof -
  let ?D = "std_clamp x_last (MIN_DRAW_DISTANCE c) (MAX_DRAW_DISTANCE c)"
  let ?d = "std_clamp (2 * x0 - min (2 * x0 * (35 / 100)) 10) 0 ?D"
  have D: "0 \<le> ?D" using std_clamp_bounds [OF assms(6), of x_last] assms(5) by linarith
  have e: "update_model_max_distance c model = Some ?d"
    using assms(1-4) by (simp add: update_model_max_distance_def Let_def mult.commute)
  have b: "0 \<le> ?d \<and> ?d \<le> ?D" using std_clamp_bounds [OF D] .
  have p: "?d = (65 / 100) * (2 * x0)"
    if "0 \<le> x0" "2 * x0 * (35 / 100) \<le> 10" "2 * x0 * (65 / 100) \<le> ?D"
    using that by (simp add: std_clamp_def [of _ 0] min_def)
  show ?thesis using e b p by blast
qed

lemma example_model_reads:
  "arr_get (getX (getPosition example_model)) (TRAJECTORY_SIZE example_consts - 1) = Some 99"
  "arr_get (getLeadsV3 example_model) 0 = Some \<lparr>lead_getProb = 9 / 10, lead_getX = [5], lead_getY = [0]\<rparr>"
  by (simp_all add: example_model_def example_line_def example_consts_def arr_get_def)

theorem C5_lead_draw_distance_witness:
  "arr_get (getX (getPosition example_model)) (TRAJECTORY_SIZE example_consts - 1) = Some 99
   \<and> arr_get (getLeadsV3 example_model) 0
       = Some \<lparr>lead_getProb = 9 / 10, lead_getX = [5], lead_getY = [0]\<rparr>
   \<and> lead_getProb \<lparr>lead_getProb = 9 / 10, lead_getX = [5], lead_getY = [0]\<rparr> > 5 / 10
   \<and> arr_get (lead_getX \<lparr>lead_getProb = 9 / 10, lead_getX = [5], lead_getY = [0]\<rparr>) 0 = Some 5
   \<and> 0 \<le> MIN_DRAW_DISTANCE example_consts
   \<and> MIN_DRAW_DISTANCE example_consts \<le> MAX_DRAW_DISTANCE example_consts
   \<and> (0 :: real) \<le> 5 \<and> 2 * 5 * (35 / 100 :: real) \<le> 10
   \<and> 2 * 5 * (65 / 100)
        \<le> std_clamp 99 (MIN_DRAW_DISTANCE example_consts) (MAX_DRAW_DISTANCE example_consts)
   \<and> update_model_max_distance example_consts example_model = Some (13 / 2)"
  using C5_lead_draw_distance [of example_model example_consts 99
       "\<lparr>lead_getProb = 9 / 10, lead_getX = [5], lead_getY = [0]\<rparr>" 5]
  by (simp add: example_model_reads)
     (auto simp: arr_get_def std_clamp_def example_consts_def)


text \<open>
  The claim as stated fails: with a lead at 5 metres the draw distance is 6.5 metres, which is
  more than 0.35 times the distance, is not the minimum draw distance of 10 metres, and is
  130 percent of the gap.
\<close>

theorem C5_lead_at_5m_counterexample:
  "update_model_max_distance example_consts example_model = Some (13 / 2)
   \<and> \<not> (13 / 2 \<le> 5 * (35 / 100 :: real))
   \<and> (13 / 2 :: real) \<noteq> MIN_DRAW_DISTANCE example_consts
   \<and> (13 / 2 :: real) \<noteq> (65 / 100) * 5"
  by (simp add: update_model_max_distance_def example_model_reads)
     (simp add: arr_get_def std_clamp_def example_consts_def)

section \<open>Properties of the ribbon\<close>

lemma arr_put_length: "arr_put xs i a = Some ys \<Longrightarrow> length ys = length xs"
  by (auto simp: arr_put_def split: if_splits)

lemma update_line_data_loop_cursor:
  assumes "update_line_data_loop pr is st = Some st'"
  shows "snd st' = snd st
           + int (length (filter (\<lambda>i. case pr i of None \<Rightarrow> False | Some p \<Rightarrow> snd p) is))
       \<and> length (fst st') = length (fst st)"
  using assms
proof (induction "is" arbitrary: st)
  case Nil
  then show ?case by simp
next
  case (Cons i "is")
  from Cons.prems obtain p buf where p: "pr i = Some p"
    and buf: "arr_put (fst st) (snd st) (fst p) = Some buf"
    and rest: "update_line_data_loop pr is (buf, if snd p then snd st + 1 else snd st) = Some st'"
    by (auto simp: bind_eq_Some_conv)
  from Cons.IH [OF rest] arr_put_length [OF buf] p show ?case by simp
qed

lemma update_line_data_loop_Some:
  assumes "\<forall>i \<in> set is. pr i \<noteq> None"
    and "0 \<le> snd st" and "snd st + int (length is) \<le> int (length (fst st))"
  shows "update_line_data_loop pr is st \<noteq> None"
  using assms
proof (induction "is" arbitrary: st)
  case Nil
  then show ?case by simp
next
  case (Cons i "is")
  from Cons.prems(1) obtain p where p: "pr i = Some p" by auto
  have "arr_put (fst st) (snd st) (fst p) = Some ((fst st)[nat (snd st) := fst p])"
    using Cons.prems(2,3) by (simp add: arr_put_def)
  moreover have "update_line_data_loop pr is
                   ((fst st)[nat (snd st) := fst p], if snd p then snd st + 1 else snd st) \<noteq> None"
    using Cons.prems by (intro Cons.IH) auto
  ultimately show ?case using p by simp
qed

lemma length_upto: "length [0..m] = nat (m + 1)"
  by simp

lemma filter_all_iff: "length (filter P xs) = length xs \<longleftrightarrow> (\<forall>x \<in> set xs. P x)"
  by (metis filter_id_conv length_filter_less nat_neq_iff)

lemma line_point_Some:
  assumes "0 \<le> i" "i < int (length (getX line))" "i < int (length (getY line))"
    "i < int (length (getZ line))"
  shows "line_point c s line y_off z_off i \<noteq> None"
  using assms by (simp add: line_point_def arr_get_def)

lemma line_points_Some:
  assumes "max_idx < int (length (getX line))" "max_idx < int (length (getY line))"
    "max_idx < int (length (getZ line))"
  shows "\<forall>i \<in> set [0..max_idx]. line_point c s line y_off z_off i \<noteq> None"
proof
  fix i
  assume "i \<in> set [0..max_idx]"
  then have "0 \<le> i" "i \<le> max_idx" by simp_all
  then show "line_point c s line y_off z_off i \<noteq> None"
    using assms by (intro line_point_Some) simp_all
qed

lemma update_line_data_result:
  assumes "0 \<le> max_idx" and "max_idx \<le> TRAJECTORY_SIZE c - 1"
    and "length (v pvd) = nat (TRAJECTORY_SIZE c * 2)"
    and "max_idx < int (length (getX line))" and "max_idx < int (length (getY line))"
    and "max_idx < int (length (getZ line))"
  shows "\<exists>pvd'. update_line_data c s line y_off z_off pvd max_idx = Some pvd'
          \<and> cnt pvd' = visible_points c s line y_off z_off max_idx
          \<and> 0 \<le> cnt pvd' \<and> cnt pvd' \<le> 2 * (max_idx + 1)
          \<and> cnt pvd' \<le> 2 * TRAJECTORY_SIZE c
          \<and> int (length (v pvd')) = 2 * TRAJECTORY_SIZE c
          \<and> (cnt pvd' = 2 * (max_idx + 1) \<longleftrightarrow>
               (\<forall>i \<in> {0..max_idx}. line_point_visible c s line y_off z_off i
                                   \<and> line_point_visible c s line (- y_off) z_off i))"
proof -
  let ?pr1 = "line_point c s line y_off z_off"
  let ?pr2 = "line_point c s line (- y_off) z_off"
  let ?n = "nat (max_idx + 1)"
  have len: "length [0..max_idx] = ?n" by simp
  have some1: "\<forall>i \<in> set [0..max_idx]. ?pr1 i \<noteq> None"
    using line_points_Some [OF assms(4-6)] .
  have some2: "\<forall>i \<in> set (rev [0..max_idx]). ?pr2 i \<noteq> None"
    using line_points_Some [OF assms(4-6), of c s "- y_off" z_off] by (simp del: upto.simps)
  have cap: "int (length (v pvd)) = 2 * TRAJECTORY_SIZE c" using assms(1-3) by simp
  have "update_line_data_loop ?pr1 [0..max_idx] (v pvd, 0) \<noteq> None"
    using some1 assms(1,2) cap by (intro update_line_data_loop_Some) (simp_all del: upto.simps)
  then obtain st1 where st1: "update_line_data_loop ?pr1 [0..max_idx] (v pvd, 0) = Some st1"
    by auto
  note c1 = update_line_data_loop_cursor [OF st1]
  let ?k1 = "int (length (filter (line_point_visible c s line y_off z_off) [0..max_idx]))"
  let ?k2 = "int (length (filter (line_point_visible c s line (- y_off) z_off) [0..max_idx]))"
  have k1: "snd st1 = ?k1" "length (fst st1) = length (v pvd)"
    using c1 by (simp_all add: line_point_visible_def [abs_def])
  have k1le: "?k1 \<le> int ?n" using length_filter_le [of _ "[0..max_idx]"] len
    by (metis of_nat_le_iff)
  have k2le: "?k2 \<le> int ?n" using length_filter_le [of _ "[0..max_idx]"] len
    by (metis of_nat_le_iff)
  have "update_line_data_loop ?pr2 (rev [0..max_idx]) st1 \<noteq> None"
    using some2 k1 k1le assms(1,2) cap by (intro update_line_data_loop_Some) (simp_all del: upto.simps)
  then obtain st2 where st2: "update_line_data_loop ?pr2 (rev [0..max_idx]) st1 = Some st2"
    by auto
  note c2 = update_line_data_loop_cursor [OF st2]
  have "length (filter (line_point_visible c s line (- y_off) z_off) (rev [0..max_idx]))
        = length (filter (line_point_visible c s line (- y_off) z_off) [0..max_idx])"
    by (simp add: rev_filter [symmetric] del: upto.simps)
  then have k2: "snd st2 = ?k1 + ?k2" "length (fst st2) = length (v pvd)"
    using c2 k1 by (simp_all add: line_point_visible_def [abs_def] del: upto.simps)
  have bound: "?k1 + ?k2 \<le> int (length (fst st2))"
    using k1le k2le k2(2) cap assms(1,2) by simp
  have res: "update_line_data c s line y_off z_off pvd max_idx
             = Some \<lparr>v = fst st2, cnt = snd st2\<rparr>"
    using bound by (simp add: update_line_data_def st1 st2 k2(1))
  have all: "?k1 + ?k2 = 2 * (max_idx + 1) \<longleftrightarrow>
               (\<forall>i \<in> {0..max_idx}. line_point_visible c s line y_off z_off i
                                   \<and> line_point_visible c s line (- y_off) z_off i)"
  proof -
    have a1: "?k1 = int ?n \<longleftrightarrow> (\<forall>i \<in> set [0..max_idx]. line_point_visible c s line y_off z_off i)"
      using filter_all_iff [of "line_point_visible c s line y_off z_off" "[0..max_idx]"] len
      by (metis of_nat_eq_iff)
    have a2: "?k2 = int ?n \<longleftrightarrow> (\<forall>i \<in> set [0..max_idx]. line_point_visible c s line (- y_off) z_off i)"
      using filter_all_iff [of "line_point_visible c s line (- y_off) z_off" "[0..max_idx]"] len
      by (metis of_nat_eq_iff)
    have n: "int ?n = max_idx + 1" using assms(1) by simp
    have "?k1 + ?k2 = 2 * (max_idx + 1) \<longleftrightarrow> ?k1 = int ?n \<and> ?k2 = int ?n"
      using k1le k2le n by auto
    then show ?thesis using a1 a2 by (auto simp del: upto.simps)
  qed
  show ?thesis
    using res k2 k1le k2le all cap assms(1,2)
    by (simp add: visible_points_def del: upto.simps)
qed


text \<open>
  Claim C2 (as amended). For \<open>max_idx\<close> from 0 to \<open>TRAJECTORY_SIZE - 1\<close>, a buffer of
  \<open>2 * TRAJECTORY_SIZE\<close> vertices and a line with more than \<open>max_idx\<close> samples,
  \<open>update_line_data\<close> returns, the assertion holds, and \<open>cnt\<close> is the number of projected
  points that are visible: at most \<open>2 * (max_idx + 1)\<close>, with equality exactly when every
  point is visible, and never more than the capacity.
\<close>

theorem C2_cnt_counts_visible_points:
  assumes "0 \<le> max_idx" and "max_idx \<le> TRAJECTORY_SIZE c - 1"
    and "length (v pvd) = nat (TRAJECTORY_SIZE c * 2)"
    and "max_idx < int (length (getX line))" and "max_idx < int (length (getY line))"
    and "max_idx < int (length (getZ line))"
  shows "\<exists>pvd'. update_line_data c s line y_off z_off pvd max_idx = Some pvd'
          \<and> cnt pvd' = visible_points c s line y_off z_off max_idx
          \<and> 0 \<le> cnt pvd' \<and> cnt pvd' \<le> 2 * (max_idx + 1)
          \<and> cnt pvd' \<le> 2 * TRAJECTORY_SIZE c
          \<and> int (length (v pvd')) = 2 * TRAJECTORY_SIZE c
          \<and> (cnt pvd' = 2 * (max_idx + 1) \<longleftrightarrow>
               (\<forall>i \<in> {0..max_idx}. line_point_visible c s line y_off z_off i
                                   \<and> line_point_visible c s line (- y_off) z_off i))"
  using assms by (rule update_line_data_result)

lemma example_projection_xyz:
  "x \<noteq> 0 \<Longrightarrow> calib_frame_to_full_frame example_consts example_state x y z
   = (\<lparr>vert_x = 910 * y / x + 582, vert_y = 910 * z / x + 437\<rparr>,
      - 500 \<le> 910 * y / x + 582 \<and> 910 * y / x + 582 \<le> 2660
      \<and> - 500 \<le> 910 * z / x + 437 \<and> 910 * z / x + 437 \<le> 1580)"
  by (auto simp: calib_frame_to_full_frame_def calib_KEp_def example_state_def example_consts_def
      UIState_init_def UIScene_init_def view_from_device_def Let_def add_divide_distrib)

lemma example_line_point:
  assumes "0 \<le> i" "i < 33"
  shows "line_point example_consts example_state (example_line y) y_off z_off i
         = Some (calib_frame_to_full_frame example_consts example_state
                   (3 + 3 * real (nat i)) (y - y_off) z_off)"
  using assms by (simp add: line_point_def example_line_def arr_get_def)

lemma example_visible_points:
  "visible_points example_consts example_state (example_line 10) (1 / 40) 0 2 = 4"
  by (simp add: visible_points_def line_point_visible_def example_line_point
      example_projection_xyz upto_rec1)

lemma example_sizes:
  "TRAJECTORY_SIZE example_consts = 33"
  "length (v (zero_line_vertices example_consts)) = 66"
  "length (getX (example_line y)) = 33" "length (getY (example_line y)) = 33"
  "length (getZ (example_line y)) = 33"
  by (simp_all add: example_consts_def zero_line_vertices_def example_line_def)

theorem C2_cnt_counts_visible_points_witness:
  "(0 :: int) \<le> 2 \<and> 2 \<le> TRAJECTORY_SIZE example_consts - 1
   \<and> length (v (zero_line_vertices example_consts)) = nat (TRAJECTORY_SIZE example_consts * 2)
   \<and> 2 < int (length (getX (example_line 10))) \<and> 2 < int (length (getY (example_line 10)))
   \<and> 2 < int (length (getZ (example_line 10)))
   \<and> map_option cnt
        (update_line_data example_consts example_state (example_line 10) (1 / 40) 0
           (zero_line_vertices example_consts) 2) = Some 4
   \<and> map_option cnt
        (update_line_data example_consts example_state (example_line 2) (1 / 40) 0
           (zero_line_vertices example_consts) 2) = Some 6"
  using C2_cnt_counts_visible_points [of 2 example_consts "zero_line_vertices example_consts"
      "example_line 10" example_state "1 / 40" 0]
    C2_cnt_counts_visible_points [of 2 example_consts "zero_line_vertices example_consts"
      "example_line 2" example_state "1 / 40" 0]
  by (auto simp: example_sizes example_visible_points visible_points_def line_point_visible_def
      example_line_point example_projection_xyz upto_rec1)


text \<open>
  The claim as stated fails: of a line 10 metres to the side, the nearest sample is projected
  out of the margin and is skipped, so \<open>cnt\<close> is 4 and not 6 for \<open>max_idx = 2\<close>.
\<close>

theorem C2_skipped_vertex_counterexample:
  "map_option cnt
     (update_line_data example_consts example_state (example_line 10) (1 / 40) 0
        (zero_line_vertices example_consts) 2) = Some 4
   \<and> (4 :: int) \<noteq> 2 * (2 + 1)"
  using update_line_data_result [of 2 example_consts "zero_line_vertices example_consts"
      "example_line 10" example_state "1 / 40" 0]
  by (auto simp: example_sizes example_visible_points)

section \<open>Properties of the lead indicators\<close>

lemma lane_lines_no_lead: "filter is_Draw_lead (ui_draw_vision_lane_lines s) = []"
proof -
  have a: "filter is_Draw_lead (concat (map ui_draw_line xs)) = []" for xs
    by (induction xs) (simp_all add: ui_draw_line_def)
  show ?thesis
    by (simp add: ui_draw_vision_lane_lines_def a) (simp add: ui_draw_line_def)
qed

lemma arr_get_Some_nth: "arr_get xs i = Some a \<Longrightarrow> a = xs ! nat i"
  by (auto simp: arr_get_def split: if_splits)

lemma ui_draw_world_leads:
  assumes "ui_draw_world sm s = Some cmds"
    and "arr_get (getLeadsV3 (msg_modelV2 sm)) 0 = Some lead_one"
    and "arr_get (getLeadsV3 (msg_modelV2 sm)) 1 = Some lead_two"
  shows "filter is_Draw_lead cmds =
     (if longitudinal_control (scene s) then
        (if lead_getProb lead_one > 5 / 10
         then [Draw_lead lead_one (lead_vertices (scene s) ! 0)] else [])
        @ (if lead_getProb lead_two > 5 / 10
              \<and> \<bar>lead_getX lead_one ! 0 - lead_getX lead_two ! 0\<bar> > 3
           then [Draw_lead lead_two (lead_vertices (scene s) ! 1)] else [])
      else [])"
proof (cases "longitudinal_control (scene s)")
  case False
  then show ?thesis using assms(1) by (auto simp: ui_draw_world_def lane_lines_no_lead)
next
  case True
  from assms True obtain d1 d2 where
    d1: "(if lead_getProb lead_one > 5 / 10 then
            do { vd \<leftarrow> arr_get (lead_vertices (scene s)) 0; Some [Draw_lead lead_one vd] }
          else Some []) = Some d1"
    and d2: "(if lead_getProb lead_two > 5 / 10 then
                   do {
                     x1 \<leftarrow> arr_get (lead_getX lead_one) 0;
                     x2 \<leftarrow> arr_get (lead_getX lead_two) 0;
                     if \<bar>x1 - x2\<bar> > 3 then
                       do {
                         vd \<leftarrow> arr_get (lead_vertices (scene s)) 1;
                         Some [Draw_lead lead_two vd]
                       }
                     else Some []
                   }
                 else Some []) = Some d2"
    and c: "cmds = ui_draw_vision_lane_lines s @ d1 @ d2"
    by (auto simp: ui_draw_world_def bind_eq_Some_conv)
  have e1: "d1 = (if lead_getProb lead_one > 5 / 10
         then [Draw_lead lead_one (lead_vertices (scene s) ! 0)] else [])"
    using d1 by (auto simp: bind_eq_Some_conv split: if_splits dest!: arr_get_Some_nth)
  have e2: "d2 = (if lead_getProb lead_two > 5 / 10
              \<and> \<bar>lead_getX lead_one ! 0 - lead_getX lead_two ! 0\<bar> > 3
           then [Draw_lead lead_two (lead_vertices (scene s) ! 1)] else [])"
    using d2 by (auto simp: bind_eq_Some_conv split: if_splits dest!: arr_get_Some_nth)
  show ?thesis using True by (simp add: c e1 e2 lane_lines_no_lead)
qed

lemma calib_lead_vertices [simp]:
  "calib_frame_to_full_frame c (s\<lparr>scene := (scene s)\<lparr>lead_vertices := lv\<rparr>\<rparr>) x y z
   = calib_frame_to_full_frame c s x y z"
  by (simp add: calib_frame_to_full_frame_def calib_KEp_def)

lemma update_leads_i_result:
  assumes "update_leads_i c model i s = Some s'"
    and "arr_get (getLeadsV3 model) i = Some lead"
  shows "(if lead_getProb lead > 5 / 10
          then \<exists>vd. lead_vertex c model s lead = Some vd
                 \<and> 0 \<le> i \<and> i < int (length (lead_vertices (scene s)))
                 \<and> s' = s\<lparr>scene := (scene s)\<lparr>lead_vertices := (lead_vertices (scene s))[nat i := vd]\<rparr>\<rparr>
          else s' = s)"
  using assms
  by (auto simp: update_leads_i_def lead_vertex_def bind_eq_Some_conv arr_put_def split: if_splits)


lemma lead_vertex_lead_vertices [simp]:
  "lead_vertex c model (s\<lparr>scene := (scene s)\<lparr>lead_vertices := lv\<rparr>\<rparr>) lead = lead_vertex c model s lead"
  by (simp add: lead_vertex_def)

lemma update_leads_result:
  assumes "update_leads c model s = Some s'"
    and "arr_get (getLeadsV3 model) 0 = Some lead_one"
    and "arr_get (getLeadsV3 model) 1 = Some lead_two"
  shows "(if lead_getProb lead_one > 5 / 10
          then Some (lead_vertices (scene s') ! 0) = lead_vertex c model s lead_one
          else lead_vertices (scene s') ! 0 = lead_vertices (scene s) ! 0)
       \<and> (if lead_getProb lead_two > 5 / 10
          then Some (lead_vertices (scene s') ! 1) = lead_vertex c model s lead_two
          else lead_vertices (scene s') ! 1 = lead_vertices (scene s) ! 1)"
proof -
  from assms(1) obtain s1 where s1: "update_leads_i c model 0 s = Some s1"
    and s2: "update_leads_i c model 1 s1 = Some s'"
    by (auto simp: update_leads_def bind_eq_Some_conv)
  note r1 = update_leads_i_result [OF s1 assms(2)]
  note r2 = update_leads_i_result [OF s2 assms(3)]
  show ?thesis
  proof (cases "lead_getProb lead_one > 5 / 10")
    case p1: True
    from r1 p1 obtain vd1 where v1: "lead_vertex c model s lead_one = Some vd1"
      "0 < length (lead_vertices (scene s))"
      "s1 = s\<lparr>scene := (scene s)\<lparr>lead_vertices := (lead_vertices (scene s))[0 := vd1]\<rparr>\<rparr>"
      by auto
    show ?thesis
    proof (cases "lead_getProb lead_two > 5 / 10")
      case p2: True
      from r2 p2 obtain vd2 where v2: "lead_vertex c model s1 lead_two = Some vd2"
        "1 < length (lead_vertices (scene s1))"
        "s' = s1\<lparr>scene := (scene s1)\<lparr>lead_vertices := (lead_vertices (scene s1))[1 := vd2]\<rparr>\<rparr>"
        by auto
      show ?thesis using p1 p2 v1 v2 by simp
    next
      case p2: False
      with r2 have "s' = s1" by simp
      then show ?thesis using p1 p2 v1 by simp
    qed
  next
    case p1: False
    with r1 have e1: "s1 = s" by simp
    show ?thesis
    proof (cases "lead_getProb lead_two > 5 / 10")
      case p2: True
      from r2 p2 obtain vd2 where v2: "lead_vertex c model s1 lead_two = Some vd2"
        "1 < length (lead_vertices (scene s1))"
        "s' = s1\<lparr>scene := (scene s1)\<lparr>lead_vertices := (lead_vertices (scene s1))[1 := vd2]\<rparr>\<rparr>"
        by auto
      show ?thesis using p1 p2 e1 v2 by simp
    next
      case p2: False
      with r2 have "s' = s1" by simp
      then show ?thesis using p1 p2 e1 by simp
    qed
  qed
qed

text \<open>
  Claim C10. Of the draw calls of \<open>ui_draw_world\<close>, those of lead chevrons are: none without
  longitudinal control; otherwise lead one exactly when its probability is above 0.5, then
  lead two exactly when its probability is above 0.5 and its distance differs from lead
  one's by more than 3. \<open>update_leads\<close> computes the vertex of a lead anew when its
  probability is above 0.5 and leaves it as it was otherwise.
\<close>

theorem C10_leads_drawn_and_updated:
  assumes "arr_get (getLeadsV3 (msg_modelV2 sm)) 0 = Some lead_one"
    and "arr_get (getLeadsV3 (msg_modelV2 sm)) 1 = Some lead_two"
  shows "(\<forall>cmds. ui_draw_world sm s = Some cmds \<longrightarrow>
            filter is_Draw_lead cmds =
              (if longitudinal_control (scene s) then
                 (if lead_getProb lead_one > 5 / 10
                  then [Draw_lead lead_one (lead_vertices (scene s) ! 0)] else [])
                 @ (if lead_getProb lead_two > 5 / 10
                       \<and> \<bar>lead_getX lead_one ! 0 - lead_getX lead_two ! 0\<bar> > 3
                    then [Draw_lead lead_two (lead_vertices (scene s) ! 1)] else [])
               else []))
       \<and> (\<forall>s'. update_leads c (msg_modelV2 sm) s = Some s' \<longrightarrow>
            (if lead_getProb lead_one > 5 / 10
             then Some (lead_vertices (scene s') ! 0) = lead_vertex c (msg_modelV2 sm) s lead_one
             else lead_vertices (scene s') ! 0 = lead_vertices (scene s) ! 0)
          \<and> (if lead_getProb lead_two > 5 / 10
             then Some (lead_vertices (scene s') ! 1) = lead_vertex c (msg_modelV2 sm) s lead_two
             else lead_vertices (scene s') ! 1 = lead_vertices (scene s) ! 1))"
  using ui_draw_world_leads [OF _ assms] update_leads_result [OF _ assms] by blast


lemma arr_get_Cons:
  "arr_get (a # xs) 0 = Some a" "arr_get (a # b # xs) 1 = Some b"
  by (simp_all add: arr_get_def)

lemma example_leads:
  "arr_get (getLeadsV3 (msg_modelV2 example_drive_sm)) 0
     = Some \<lparr>lead_getProb = 9 / 10, lead_getX = [5], lead_getY = [0]\<rparr>"
  "arr_get (getLeadsV3 (msg_modelV2 example_drive_sm)) 1
     = Some \<lparr>lead_getProb = 1 / 10, lead_getX = [60], lead_getY = [0]\<rparr>"
  by (simp_all add: example_drive_sm_def example_sm_def example_model_def arr_get_def)

lemma example_long_state_scene:
  "longitudinal_control (scene example_long_state)"
  "lead_vertices (scene example_long_state) = [zero_vertex, zero_vertex]"
  "lateralPlan_lanelessModeStatus (scene example_long_state) = False"
  "lane_line_vertices (scene example_long_state) = replicate 4 (zero_line_vertices example_consts)"
  "road_edge_vertices (scene example_long_state) = replicate 2 (zero_line_vertices example_consts)"
  "track_vertices (scene example_long_state) = zero_line_vertices example_consts"
  by (simp_all add: example_long_state_def example_state_def UIScene_init_def numeral_2_eq_2)

lemma example_ui_draw_world:
  "ui_draw_world example_drive_sm example_long_state
   = Some [Draw_lead \<lparr>lead_getProb = 9 / 10, lead_getX = [5], lead_getY = [0]\<rparr> zero_vertex]"
  by (simp add: ui_draw_world_def example_leads example_long_state_scene
      ui_draw_vision_lane_lines_def ui_draw_line_def zero_line_vertices_def arr_get_Cons)

lemma example_path_idx:
  "get_path_length_idx example_consts (getPosition example_model) 5 = Some 0"
  by (simp add: get_path_length_idx_def get_path_length_idx_loop.simps [of _ _ _ 0]
      get_path_length_idx_loop.simps [of _ _ _ 1]
      example_model_def example_line_def example_consts_def arr_get_def)


lemma example_lead_vertex:
  "lead_vertex example_consts example_model example_long_state
     \<lparr>lead_getProb = 9 / 10, lead_getX = [5], lead_getY = [0]\<rparr>
   = Some \<lparr>vert_x = 582, vert_y = 16476 / 25\<rparr>"
proof -
  have z: "arr_get (getZ (getPosition example_model)) 0 = Some 0"
    by (simp add: example_model_def example_line_def arr_get_def)
  have p: "calib_frame_to_full_frame example_consts example_long_state x y z
           = calib_frame_to_full_frame example_consts example_state x y z" for x y z
    by (simp add: calib_frame_to_full_frame_def calib_KEp_def example_long_state_def)
  show ?thesis
    by (simp add: lead_vertex_def arr_get_Cons example_path_idx z p example_projection_xyz)
qed

lemma example_update_leads:
  "map_option (lead_vertices \<circ> scene)
     (update_leads example_consts (msg_modelV2 example_drive_sm) example_long_state)
   = Some [\<lparr>vert_x = 582, vert_y = 16476 / 25\<rparr>, zero_vertex]"
proof -
  have m: "msg_modelV2 example_drive_sm = example_model"
    by (simp add: example_drive_sm_def)
  have z: "arr_get (getZ (getPosition example_model)) 0 = Some 0"
    by (simp add: example_model_def example_line_def arr_get_def)
  have p: "calib_frame_to_full_frame example_consts example_long_state x y z
           = calib_frame_to_full_frame example_consts example_state x y z" for x y z
    by (simp add: calib_frame_to_full_frame_def calib_KEp_def example_long_state_def)
  have l: "getLeadsV3 example_model
           = [\<lparr>lead_getProb = 9 / 10, lead_getX = [5], lead_getY = [0]\<rparr>,
              \<lparr>lead_getProb = 1 / 10, lead_getX = [60], lead_getY = [0]\<rparr>]"
    by (simp add: example_model_def)
  show ?thesis
    unfolding m
    by (simp add: update_leads_def update_leads_i_def l arr_get_Cons example_path_idx z p
        example_projection_xyz example_long_state_scene arr_put_def)
qed

theorem C10_leads_drawn_and_updated_witness:
  "arr_get (getLeadsV3 (msg_modelV2 example_drive_sm)) 0
     = Some \<lparr>lead_getProb = 9 / 10, lead_getX = [5], lead_getY = [0]\<rparr>
   \<and> arr_get (getLeadsV3 (msg_modelV2 example_drive_sm)) 1
     = Some \<lparr>lead_getProb = 1 / 10, lead_getX = [60], lead_getY = [0]\<rparr>
   \<and> ui_draw_world example_drive_sm example_long_state
     = Some [Draw_lead \<lparr>lead_getProb = 9 / 10, lead_getX = [5], lead_getY = [0]\<rparr> zero_vertex]
   \<and> map_option (lead_vertices \<circ> scene)
        (update_leads example_consts (msg_modelV2 example_drive_sm) example_long_state)
     = Some [\<lparr>vert_x = 582, vert_y = 16476 / 25\<rparr>, zero_vertex]
   \<and> lead_vertex example_consts (msg_modelV2 example_drive_sm) example_long_state
        \<lparr>lead_getProb = 9 / 10, lead_getX = [5], lead_getY = [0]\<rparr>
     = Some \<lparr>vert_x = 582, vert_y = 16476 / 25\<rparr>"
  using C10_leads_drawn_and_updated [of example_drive_sm "\<lparr>lead_getProb = 9 / 10, lead_getX = [5], lead_getY = [0]\<rparr>"
      "\<lparr>lead_getProb = 1 / 10, lead_getX = [60], lead_getY = [0]\<rparr>" example_long_state
      example_consts]
    example_leads example_ui_draw_world example_update_leads example_lead_vertex
  by (simp add: example_drive_sm_def)

section \<open>Properties of the layout of the measures\<close>

lemma fold_upd_length:
  "length (fold (\<lambda>i rs. rs[nat i := g i]) is rs) = length rs"
  by (induction "is" arbitrary: rs) simp_all

lemma fold_upd_nth:
  assumes "\<forall>i \<in> set is. 0 \<le> i" and "k < length rs"
  shows "fold (\<lambda>i rs. rs[nat i := g i]) is rs ! k
         = (if int k \<in> set is then g (int k) else rs ! k)"
  using assms
proof (induction "is" arbitrary: rs)
  case Nil
  then show ?case by simp
next
  case (Cons i "is")
  have i: "0 \<le> i" using Cons.prems(1) by simp
  have "fold (\<lambda>i rs. rs[nat i := g i]) is (rs[nat i := g i]) ! k
        = (if int k \<in> set is then g (int k) else (rs[nat i := g i]) ! k)"
    using Cons.prems by (intro Cons.IH) simp_all
  moreover have "(rs[nat i := g i]) ! k = (if i = int k then g (int k) else rs ! k)"
    using i Cons.prems(2) by (auto simp: nth_list_update)
  ultimately show ?case by auto
qed

lemma fold_upd_idem:
  assumes "\<forall>i \<in> set is. 0 \<le> i"
  shows "fold (\<lambda>i rs. rs[nat i := g i]) is (fold (\<lambda>i rs. rs[nat i := g i]) is rs)
         = fold (\<lambda>i rs. rs[nat i := g i]) is rs"
  by (rule nth_equalityI) (simp_all add: fold_upd_length fold_upd_nth [OF assms])

lemma ui_draw_measures_slots_eq:
  "ui_draw_measures_slots r y n is sc =
     (if \<forall>i \<in> set is. 0 \<le> i \<and> i < int (length (measure_slots sc))
                        \<and> i < int (length (measure_slot_touch_rects sc))
      then Some (sc\<lparr>measure_slot_touch_rects :=
                     fold (\<lambda>i rs. rs[nat i := measure_slot_touch_rect r y n (measure_slots_rect sc) i])
                       is (measure_slot_touch_rects sc)\<rparr>)
      else None)"
proof (induction "is" arbitrary: sc)
  case Nil
  then show ?case by simp
next
  case (Cons i "is")
  show ?case
    by (simp add: Cons.IH arr_get_def arr_put_def)
qed


lemma ui_draw_measures_result:
  assumes "ui_draw_measures s = Some s'" and "measure_cur_num_slots (scene s) \<noteq> 0"
  shows "\<exists>lay. ui_draw_measures_layout (fb_w s) (fb_h s) (measure_cur_num_slots (scene s))
                 (measure_max_num_slots (scene s)) = Some lay
          \<and> (\<forall>i \<in> set [0..measure_cur_num_slots (scene s) - 1].
                 i < int (length (measure_slots (scene s)))
               \<and> i < int (length (measure_slot_touch_rects (scene s))))
          \<and> s' = s\<lparr>scene := (scene s)
                 \<lparr>measure_slots_rect := fst lay,
                  measure_slot_touch_rects :=
                    fold (\<lambda>i rs. rs[nat i := measure_slot_touch_rect (fst (snd lay)) (snd (snd lay))
                                               (measure_cur_num_slots (scene s)) (fst lay) i])
                      [0..measure_cur_num_slots (scene s) - 1]
                      (measure_slot_touch_rects (scene s))\<rparr>\<rparr>"
  using assms
  by (auto simp: ui_draw_measures_def Let_def bind_eq_Some_conv ui_draw_measures_slots_eq
      simp del: upto.simps split: if_splits)

text \<open>
  Claim C9. When \<open>ui_draw_measures\<close> has run, running it again on the resulting state
  succeeds and changes nothing: the bounding rectangle and the touch rectangle of every slot
  are those of the first run.
\<close>

theorem C9_measures_layout_idempotent:
  assumes "ui_draw_measures s = Some s'"
  shows "ui_draw_measures s' = Some s'"
proof (cases "measure_cur_num_slots (scene s) = 0")
  case True
  then have "s' = s" using assms by (simp add: ui_draw_measures_def Let_def)
  then show ?thesis using assms by simp
next
  case False
  let ?n = "measure_cur_num_slots (scene s)"
  from ui_draw_measures_result [OF assms False] obtain lay where
    lay: "ui_draw_measures_layout (fb_w s) (fb_h s) ?n (measure_max_num_slots (scene s)) = Some lay"
    and rng: "\<forall>i \<in> set [0..?n - 1]. i < int (length (measure_slots (scene s)))
               \<and> i < int (length (measure_slot_touch_rects (scene s)))"
    and s': "s' = s\<lparr>scene := (scene s)
                 \<lparr>measure_slots_rect := fst lay,
                  measure_slot_touch_rects :=
                    fold (\<lambda>i rs. rs[nat i := measure_slot_touch_rect (fst (snd lay)) (snd (snd lay))
                                               ?n (fst lay) i])
                      [0..?n - 1] (measure_slot_touch_rects (scene s))\<rparr>\<rparr>"
    by blast
  have nn: "\<forall>i \<in> set [0..?n - 1]. 0 \<le> i" by simp
  have rng': "\<forall>i \<in> set [0..?n - 1]. 0 \<le> i \<and> i < int (length (measure_slots (scene s)))
               \<and> i < int (length (measure_slot_touch_rects (scene s)))"
    using rng by simp
  show ?thesis
    unfolding ui_draw_measures_def Let_def
    using False rng'
    by (simp add: s' lay ui_draw_measures_slots_eq fold_upd_length fold_upd_idem [OF nn] del: upto.simps)
qed


lemma example_layout:
  "ui_draw_measures_layout 2160 1080 3 10 = Some (mkRect 1790 262 324 573, 162, 191)"
  by (simp add: ui_draw_measures_layout_def Let_def bdr_s_def face_wheel_radius_def footer_h_def
      brake_size_def bottom_def mkRect_def c_trunc_def signed_divide_int_def)

lemma example_measures:
  "ui_draw_measures example_state = Some example_measures_state"
proof -
  have f: "fb_w example_state = 2160" "fb_h example_state = 1080"
    "measure_cur_num_slots (scene example_state) = 3"
    "measure_max_num_slots (scene example_state) = 10"
    "measure_slots (scene example_state) = replicate 10 0"
    "measure_slot_touch_rects (scene example_state) = replicate 10 (mkRect 0 0 0 0)"
    by (simp_all add: example_state_def UIState_init_def UIScene_init_def)
  have r: "replicate 10 x = [x, x, x] @ replicate 7 x" for x :: Rect
    by (simp add: numeral_eq_Suc)
  show ?thesis
    by (simp add: ui_draw_measures_def Let_def f example_layout ui_draw_measures_slots_eq upto_rec1
        measure_slot_touch_rect_def example_measures_state_def signed_modulo_int_def)
       (simp add: r mkRect_def)
qed

theorem C9_measures_layout_idempotent_witness:
  "ui_draw_measures example_state = Some example_measures_state
   \<and> ui_draw_measures example_measures_state = Some example_measures_state"
  using C9_measures_layout_idempotent [of example_state example_measures_state] example_measures by simp

section \<open>Properties of \<open>world_objects_visible\<close>\<close>

lemma bind_ignore: "(m \<bind> (\<lambda>_. k)) = Some y \<Longrightarrow> k = Some y"
  by (cases m) simp_all

lemma update_state_params_Some:
  assumes "update_state_params t p sc = Some sc'"
  shows "sc' = sc \<or> (\<exists>dim. sc' =
            (let sc1 = sc\<lparr>paramsCheckLast := t,
                       disableDisengageOnGasEnabled := getBool p ''DisableDisengageOnGas'',
                       screen_dim_mode := dim\<rparr>
            in if disableDisengageOnGasEnabled sc1
                     then sc1\<lparr>onePedalModeActive := getBool p ''OnePedalMode''\<rparr> else sc1))"
proof (cases "t - paramsCheckLast sc > paramsCheckFreq sc")
  case False
  then show ?thesis using assms by (simp add: update_state_params_def)
next
  case True
  from assms True obtain dim where
    h: "(let sc1 = sc\<lparr>paramsCheckLast := t,
                       disableDisengageOnGasEnabled := getBool p ''DisableDisengageOnGas'',
                       screen_dim_mode := dim\<rparr>;
             sc2 = (if disableDisengageOnGasEnabled sc1
                     then sc1\<lparr>onePedalModeActive := getBool p ''OnePedalMode''\<rparr> else sc1)
         in (if accel_mode_button_enabled sc2 then get_stoi p ''AccelMode'' else Some 0) \<bind>
              (\<lambda>_. (if dynamic_follow_mode_button_enabled sc2
                    then get_stoi p ''DynamicFollow'' else Some 0) \<bind>
                   (\<lambda>_. Some sc2))) = Some sc'"
    unfolding update_state_params_def by (simp add: bind_eq_Some_conv) blast
  show ?thesis
    using h [unfolded Let_def, THEN bind_ignore, THEN bind_ignore]
    by (intro disjI2 exI [of _ dim]) (simp add: Let_def)
qed

lemma visible_flag_params:
  "update_state_params t p sc = Some sc' \<Longrightarrow> world_objects_visible sc' = world_objects_visible sc"
  by (drule update_state_params_Some) (auto simp: Let_def split: if_splits)

lemma visible_flag_select:
  "screen_dim_select st sc = Some sc' \<Longrightarrow> world_objects_visible sc' = world_objects_visible sc"
  by (auto simp: screen_dim_select_def bind_eq_Some_conv split: if_splits)

lemma visible_flag_new_step:
  "screen_dim_new_step sc = Some sc' \<Longrightarrow> world_objects_visible sc' = world_objects_visible sc"
  by (auto simp: screen_dim_new_step_def bind_eq_Some_conv Let_def split: if_splits)

lemma visible_flag_ease:
  "screen_dim_ease t sc = Some sc' \<Longrightarrow> world_objects_visible sc' = world_objects_visible sc"
  by (auto simp: screen_dim_ease_def bind_eq_Some_conv Let_def split: if_splits)

lemma visible_flag_screen_dim:
  assumes "update_state_screen_dim t s = Some s'"
  shows "world_objects_visible (scene s') = world_objects_visible (scene s)"
proof (cases "started (scene s)")
  case True
  define sc_a where "sc_a = (scene s)\<lparr>screen_dim_touch_rect :=
                    (let k = 1 + screen_dim_mode_max (scene s) - screen_dim_mode (scene s);
                         cx = centerX (mkRect (bdr_s * 2) (c_trunc (real_of_int bdr_s * (15 / 10))) 184 202);
                         cy = fb_h s - footer_h sdiv 2
                     in mkRect (cx - k * 96) (cy - k * 96) ((2 * k) * 96) ((2 * k) * 96))\<rparr>"
  have wa: "world_objects_visible sc_a = world_objects_visible (scene s)"
    by (simp add: sc_a_def)
  from assms obtain sc_b sc_c sc1 where
    "screen_dim_select (status s) sc_a = Some sc_b" "screen_dim_new_step sc_b = Some sc_c"
    "screen_dim_ease t sc_c = Some sc1"
    "s' = s\<lparr>scene := sc1\<lparr>screen_dim_mode_last := screen_dim_mode_cur sc1,
                              screen_dim_fade_last_t := t\<rparr>\<rparr>"
    unfolding update_state_screen_dim_started [OF True] sc_a_def [symmetric]
    by (auto simp: bind_eq_Some_conv)
  then show ?thesis using visible_flag_select visible_flag_new_step visible_flag_ease wa by fastforce
next
  case False
  then show ?thesis using assms
    by (auto simp: update_state_screen_dim_def bind_eq_Some_conv Let_def)
qed

lemma visible_flag_carState:
  "world_objects_visible (update_state_carState sm sc) = world_objects_visible sc"
  by (simp add: update_state_carState_def Let_def)

lemma visible_flag_lane_lines:
  "update_model_lane_lines c model max_idx is s = Some s'
   \<Longrightarrow> world_objects_visible (scene s') = world_objects_visible (scene s)"
proof (induction "is" arbitrary: s)
  case Nil
  then show ?case by simp
next
  case (Cons i "is")
  from Cons.prems obtain probs lvs where
    "update_model_lane_lines c model max_idx is
       (s\<lparr>scene := (scene s)\<lparr>lane_line_probs := probs, lane_line_vertices := lvs\<rparr>\<rparr>) = Some s'"
    by (auto simp: bind_eq_Some_conv)
  from Cons.IH [OF this] show ?case by simp
qed

lemma visible_flag_road_edges:
  "update_model_road_edges c model max_idx is s = Some s'
   \<Longrightarrow> world_objects_visible (scene s') = world_objects_visible (scene s)"
proof (induction "is" arbitrary: s)
  case Nil
  then show ?case by simp
next
  case (Cons i "is")
  from Cons.prems obtain stds evs where
    "update_model_road_edges c model max_idx is
       (s\<lparr>scene := (scene s)\<lparr>road_edge_stds := stds, road_edge_vertices := evs\<rparr>\<rparr>) = Some s'"
    by (auto simp: bind_eq_Some_conv)
  from Cons.IH [OF this] show ?case by simp
qed


lemma visible_flag_update_model:
  assumes "update_model c model s = Some s'"
  shows "world_objects_visible (scene s') = world_objects_visible (scene s)"
proof -
  from assms obtain max_idx s1 s2 tv where
    "update_model_lane_lines c model max_idx
       [0..int (length (lane_line_vertices (scene s))) - 1] s = Some s1"
    "update_model_road_edges c model max_idx
       [0..int (length (road_edge_vertices (scene s1))) - 1] s1 = Some s2"
    "s' = s2\<lparr>scene := (scene s2)\<lparr>track_vertices := tv\<rparr>\<rparr>"
    by (auto simp: update_model_def bind_eq_Some_conv simp del: upto.simps)
  then show ?thesis using visible_flag_lane_lines visible_flag_road_edges by fastforce
qed

lemma visible_flag_update_leads_i:
  "update_leads_i c model i s = Some s'
   \<Longrightarrow> world_objects_visible (scene s') = world_objects_visible (scene s)"
  by (auto simp: update_leads_i_def bind_eq_Some_conv split: if_splits)

lemma visible_flag_update_leads:
  "update_leads c model s = Some s'
   \<Longrightarrow> world_objects_visible (scene s') = world_objects_visible (scene s)"
  by (auto simp: update_leads_def bind_eq_Some_conv dest!: visible_flag_update_leads_i)

lemma visible_flag_modelV2:
  "update_state_modelV2 c sm s = Some s'
   \<Longrightarrow> world_objects_visible (scene s') = world_objects_visible (scene s)"
  by (auto simp: update_state_modelV2_def bind_eq_Some_conv split: if_splits
      dest!: visible_flag_update_model visible_flag_update_leads)

lemma visible_flag_liveCalibration:
  "update_state_liveCalibration c sm sc = Some sc'
   \<Longrightarrow> world_objects_visible sc' = (world_objects_visible sc \<or> updated sm ''liveCalibration'')"
  by (auto simp: update_state_liveCalibration_def bind_eq_Some_conv split: if_splits)

lemma visible_flag_rest:
  "world_objects_visible (update_state_pandaState sm sc) = world_objects_visible sc"
  "world_objects_visible (update_state_plans sm sc) = world_objects_visible sc"
  "world_objects_visible (update_state_brake_indicator t sc) = world_objects_visible sc"
  "world_objects_visible (update_state_one_pedal_fade t st sc) = world_objects_visible sc"
  "world_objects_visible (update_state_dynamic_follow t sc) = world_objects_visible sc"
  by (simp_all add: update_state_pandaState_def update_state_plans_def
      update_state_brake_indicator_def update_state_one_pedal_fade_def
      update_state_dynamic_follow_def Let_def)

lemma visible_flag_update_state:
  assumes "update_state c t p sm s = Some s'"
  shows "world_objects_visible (scene s')
         = (world_objects_visible (scene s) \<or> updated sm ''liveCalibration'')"
proof -
  from assms obtain sc1 s2 s3 sc4 where
    a: "update_state_params t p (scene s) = Some sc1"
    and b: "update_state_screen_dim t (s\<lparr>scene := sc1\<rparr>) = Some s2"
    and c: "update_state_modelV2 c sm (s2\<lparr>scene := update_state_carState sm (scene s2)\<rparr>) = Some s3"
    and d: "update_state_liveCalibration c sm (scene s3) = Some sc4"
    and e: "s' = s3\<lparr>scene := (update_state_dynamic_follow t
                   (update_state_one_pedal_fade t (status s3)
                      (update_state_brake_indicator t
                         (update_state_plans sm (update_state_pandaState sm sc4)))))\<lparr>lastTime := t\<rparr>\<rparr>"
    unfolding update_state_def Let_def by (auto simp: bind_eq_Some_conv)
  show ?thesis
    using visible_flag_params [OF a] visible_flag_screen_dim [OF b] visible_flag_modelV2 [OF c] visible_flag_liveCalibration [OF d]
    by (simp add: e visible_flag_rest visible_flag_carState)
qed


lemma visible_flag_set_vipc [simp]:
  "world_objects_visible (scene (set_vipc_client_connected b s)) = world_objects_visible (scene s)"
  by (simp add: set_vipc_client_connected_def)

lemma visible_flag_update_status:
  assumes "update_status t tici xf p sm s = Some s'"
  shows "world_objects_visible (scene s') = world_objects_visible (scene s)"
proof -
  define s1 where "s1 = (if started (scene s) \<and> updated sm ''controlsState'' then
                   s\<lparr>status :=
                       (case getAlertStatus (msg_controlsState sm) of
                          USER_PROMPT \<Rightarrow> STATUS_WARNING
                        | CRITICAL \<Rightarrow> STATUS_ALERT
                        | NORMAL \<Rightarrow> (if getEnabled (msg_controlsState sm) then STATUS_ENGAGED
                                     else STATUS_DISENGAGED))\<rparr>
                 else s)"
  have w1: "world_objects_visible (scene s1) = world_objects_visible (scene s)"
    by (simp add: s1_def)
  from assms obtain s2 where
    s2: "(if started (scene s1) \<noteq> started_prev s1 then
            (if started (scene s1) then
               do {
                 _ \<leftarrow> get_stoi p ''LanelessMode'';
                 bp \<leftarrow> get_stoi p ''FrictionBrakePercent'';
                 n \<leftarrow> get_stoi p ''MeasureNumSlots'';
                 slots \<leftarrow> update_status_measure_slots p
                            [0..measure_max_num_slots (scene s1) - 1] (measure_slots (scene s1));
                 let wide = (if tici then getBool p ''EnableWideCamera'' else False);
                 Some (s1\<lparr>status := STATUS_DISENGAGED,
                          wide_camera := wide,
                          car_space_transform := (if vg s1 then xf else car_space_transform s1),
                          vipc_client_is_wide := wide,
                          scene := (scene s1)
                            \<lparr>brake_percent := bp,
                             accel_mode_button_enabled := getBool p ''AccelModeButton'',
                             dynamic_follow_mode_button_enabled := getBool p ''DynamicFollowToggle'',
                             sessionInitTime := t,
                             measure_cur_num_slots := n,
                             measure_slots := slots\<rparr>\<rparr>)
               }
             else Some (set_vipc_client_connected False s1))
          else Some s1) = Some s2"
    and s': "s' = s2\<lparr>started_prev := started (scene s2)\<rparr>"
    unfolding update_status_def Let_def s1_def [symmetric]
    by (auto simp: bind_eq_Some_conv simp del: upto.simps)
  have "world_objects_visible (scene s2) = world_objects_visible (scene s1)"
    using s2 by (auto simp: bind_eq_Some_conv Let_def simp del: upto.simps split: if_splits)
  then show ?thesis by (simp add: s' w1)
qed

lemma visible_flag_update_vision:
  "world_objects_visible (scene (update_vision ok s)) \<longrightarrow> world_objects_visible (scene s)"
  by (simp add: update_vision_def ui_init_vision_def)

lemma visible_flag_QUIState_update:
  assumes "QUIState_update c i s = Some s'" and "world_objects_visible (scene s')"
  shows "world_objects_visible (scene s) \<or> updated (in_sm i) ''liveCalibration''"
proof -
  from assms(1) obtain s1 s2 where
    a: "update_state c (in_t_state i) (in_params i) (in_sm i) s = Some s1"
    and b: "update_status (in_t_status i) (in_tici i) (in_xform i) (in_params i) (in_sm i) s1 = Some s2"
    and c: "s' = update_vision (in_connect_ok i) s2"
    by (auto simp: QUIState_update_def bind_eq_Some_conv)
  from assms(2) c visible_flag_update_vision have "world_objects_visible (scene s2)" by blast
  then show ?thesis using visible_flag_update_status [OF b] visible_flag_update_state [OF a] by simp
qed

lemma visible_flag_ui_draw_measures:
  assumes "ui_draw_measures s = Some s'"
  shows "world_objects_visible (scene s') = world_objects_visible (scene s)"
proof (cases "measure_cur_num_slots (scene s) = 0")
  case True
  then show ?thesis using assms by (simp add: ui_draw_measures_def Let_def)
next
  case False
  from ui_draw_measures_result [OF assms False] show ?thesis by auto
qed

lemma ui_draw_hidden:
  assumes "ui_draw sm s = Some r" and "\<not> world_objects_visible (scene s)"
  shows "snd r = [] \<and> \<not> world_objects_visible (scene (fst r))"
proof (cases "started (scene s) \<and> vipc_client_connected s")
  case False
  then show ?thesis using assms by (auto simp: ui_draw_def Let_def)
next
  case True
  then have "ui_draw_vision sm s = Some r" using assms(1) by (simp add: ui_draw_def Let_def)
  then show ?thesis using assms(2)
    by (auto simp: ui_draw_vision_def bind_eq_Some_conv split: if_splits
        dest: visible_flag_ui_draw_measures)
qed

lemma ui_run_hidden:
  assumes "ui_run c es s = Some r" and "\<not> world_objects_visible (scene s)"
    and "\<forall>e \<in> set es. \<not> calibration_received e"
  shows "snd r = [] \<and> \<not> world_objects_visible (scene (fst r))"
  using assms
proof (induction c es s arbitrary: r rule: ui_run.induct)
  case (1 c s)
  then show ?case by auto
next
  case (2 c i es s)
  from "2.prems"(1) obtain s1 where a: "QUIState_update c i s = Some s1"
    and b: "ui_run c es s1 = Some r"
    by (auto simp: bind_eq_Some_conv)
  have "\<not> world_objects_visible (scene s1)"
    using visible_flag_QUIState_update [OF a] "2.prems"(2,3) by auto
  then show ?case using "2.IH" [OF a b] "2.prems"(3) by simp
next
  case (3 c sm es s)
  from "3.prems"(1) obtain r1 r2 where a: "ui_draw sm s = Some r1"
    and b: "ui_run c es (fst r1) = Some r2" and r: "r = (fst r2, snd r1 @ snd r2)"
    by (auto simp: bind_eq_Some_conv)
  note h = ui_draw_hidden [OF a "3.prems"(2)]
  from "3.IH" [OF a b] h "3.prems"(3) show ?case by (simp add: r)
qed

text \<open>
  Claim C6. \<open>world_objects_visible\<close> is false in the initial state and after
  \<open>ui_init_vision\<close>; \<open>update_state\<close> sets it exactly when \<open>liveCalibration\<close> was received
  and leaves it otherwise; and while it is false, neither a single \<open>ui_draw\<close> nor any sequence
  of updates without a calibration message and of draws makes a world-space draw call.
\<close>

theorem C6_world_hidden_until_calibration:
  "\<not> world_objects_visible (scene (UIState_init c w h wide))
   \<and> \<not> world_objects_visible (scene (ui_init_vision s))
   \<and> (\<forall>s'. update_state c t p sm s = Some s' \<longrightarrow>
         world_objects_visible (scene s')
         = (world_objects_visible (scene s) \<or> updated sm ''liveCalibration''))
   \<and> (\<forall>r. ui_draw sm s = Some r \<and> \<not> world_objects_visible (scene s) \<longrightarrow> snd r = [])
   \<and> (\<forall>r. ui_run c es s = Some r \<and> \<not> world_objects_visible (scene s)
            \<and> (\<forall>e \<in> set es. \<not> calibration_received e)
         \<longrightarrow> snd r = [] \<and> \<not> world_objects_visible (scene (fst r)))"
proof (intro conjI allI impI)
  show "\<not> world_objects_visible (scene (UIState_init c w h wide))"
    by (simp add: UIState_init_def UIScene_init_def)
  show "\<not> world_objects_visible (scene (ui_init_vision s))"
    by (simp add: ui_init_vision_def)
  show "world_objects_visible (scene s')
         = (world_objects_visible (scene s) \<or> updated sm ''liveCalibration'')"
    if "update_state c t p sm s = Some s'" for s'
    using that by (rule visible_flag_update_state)
  show "snd r = []" if "ui_draw sm s = Some r \<and> \<not> world_objects_visible (scene s)" for r
    using that ui_draw_hidden by blast
  show "snd r = []" "\<not> world_objects_visible (scene (fst r))"
    if "ui_run c es s = Some r \<and> \<not> world_objects_visible (scene s)
            \<and> (\<forall>e \<in> set es. \<not> calibration_received e)" for r
    using that ui_run_hidden by blast+
qed


lemma example_tick_fields:
  "in_sm example_tick = example_sm\<lparr>msg_deviceState_started := True\<rparr>"
  "in_params example_tick = example_params" "in_t_state example_tick = 1"
  "in_t_status example_tick = 1" "in_tici example_tick = False"
  "in_xform example_tick = Xform 1 0 0 1 0 0" "in_connect_ok example_tick = True"
  by (simp_all add: example_tick_def)

lemma example_tick_update_state:
  "\<exists>s1. update_state example_consts 1 example_params
          (example_sm\<lparr>msg_deviceState_started := True\<rparr>) example_state = Some s1
        \<and> started (scene s1) \<and> \<not> started_prev s1 \<and> \<not> vipc_client_is_wide s1
        \<and> \<not> vipc_client_rear_connected s1
        \<and> measure_max_num_slots (scene s1) = 10 \<and> measure_slots (scene s1) = replicate 10 0"
  by (simp add: update_state_def example_state_def example_params_def example_sm_def
      update_state_params_def UIScene_init_def UIState_init_def update_state_screen_dim_def
      screen_dim_select_def screen_dim_new_step_def screen_dim_ease_def
      update_state_modelV2_def update_state_liveCalibration_def arr_get_def Let_def
      update_state_carState_def update_state_pandaState_def update_state_plans_def
      update_state_brake_indicator_def update_state_one_pedal_fade_def
      update_state_dynamic_follow_def)


lemma measure_slots_loop_Some:
  assumes "\<forall>i \<in> set is. 0 \<le> i \<and> i < int (length slots)" and "\<forall>k. get_stoi p k \<noteq> None"
  shows "update_status_measure_slots p is slots \<noteq> None"
  using assms
proof (induction "is" arbitrary: slots)
  case Nil
  then show ?case by simp
next
  case (Cons i "is")
  from Cons.prems(2) obtain m where m: "get_stoi p (slotName i) = Some m" by auto
  have put: "arr_put slots i m = Some (slots[nat i := m])"
    using Cons.prems(1) by (simp add: arr_put_def)
  have "update_status_measure_slots p is (slots[nat i := m]) \<noteq> None"
    using Cons.prems by (intro Cons.IH) simp_all
  then show ?case by (simp add: m put)
qed

lemma example_tick_update:
  "\<exists>s3. QUIState_update example_consts example_tick example_state = Some s3
        \<and> started (scene s3) \<and> vipc_client_connected s3
        \<and> measure_cur_num_slots (scene s3) = 0 \<and> \<not> world_objects_visible (scene s3)"
proof -
  from example_tick_update_state obtain s1 where
    s1: "update_state example_consts 1 example_params
          (example_sm\<lparr>msg_deviceState_started := True\<rparr>) example_state = Some s1"
    and f1: "started (scene s1)" "\<not> started_prev s1" "\<not> vipc_client_is_wide s1"
      "\<not> vipc_client_rear_connected s1"
      "measure_max_num_slots (scene s1) = 10" "measure_slots (scene s1) = replicate 10 0"
    by blast
  have "update_status_measure_slots example_params [0..9] (replicate 10 0) \<noteq> None"
    by (rule measure_slots_loop_Some) (simp_all add: example_params_def)
  then obtain slots where
    sl: "update_status_measure_slots example_params [0..9] (replicate 10 0) = Some slots"
    by auto
  have u: "\<not> updated (example_sm\<lparr>msg_deviceState_started := True\<rparr>) ''controlsState''"
    by (simp add: example_sm_def)
  have g: "get_stoi example_params k = Some 0" "getBool example_params k = False" for k
    by (simp_all add: example_params_def)
  obtain s2 where
    s2: "update_status 1 False (Xform 1 0 0 1 0 0) example_params
           (example_sm\<lparr>msg_deviceState_started := True\<rparr>) s1 = Some s2"
    and f2: "started (scene s2)" "\<not> vipc_client_is_wide s2" "\<not> vipc_client_rear_connected s2"
      "measure_cur_num_slots (scene s2) = 0"
    using f1 u by (simp add: update_status_def Let_def g sl del: upto.simps)
  let ?s3 = "update_vision True s2"
  have f3: "started (scene ?s3)" "vipc_client_connected ?s3"
    "measure_cur_num_slots (scene ?s3) = 0" "\<not> world_objects_visible (scene ?s3)"
    using f2 by (simp_all add: update_vision_def vipc_client_connected_def ui_init_vision_def
        set_vipc_client_connected_def)
  have "QUIState_update example_consts example_tick example_state = Some ?s3"
    by (simp add: QUIState_update_def example_tick_fields s1 s2)
  then show ?thesis using f3 by blast
qed

lemma example_run:
  "map_option snd (ui_run example_consts
      [Ev_update example_tick, Ev_draw (in_sm example_tick)] example_state) = Some []"
proof -
  from example_tick_update obtain s3 where
    a: "QUIState_update example_consts example_tick example_state = Some s3"
    and f: "started (scene s3)" "vipc_client_connected s3"
      "measure_cur_num_slots (scene s3) = 0" "\<not> world_objects_visible (scene s3)"
    by blast
  have "ui_draw (in_sm example_tick) s3 = Some (s3, [])"
    using f by (simp add: ui_draw_def ui_draw_vision_def ui_draw_measures_def Let_def)
  then show ?thesis by (simp add: a)
qed

lemma example_calibration_update_state:
  "update_state example_consts 1 example_params example_calibration_sm example_state \<noteq> None"
  by (simp add: update_state_None example_state_def example_params_def example_sm_def
      example_calibration_sm_def
      update_state_params_def UIScene_init_def UIState_init_def update_state_screen_dim_def
      screen_dim_select_def screen_dim_new_step_def screen_dim_ease_def
      update_state_modelV2_def update_state_liveCalibration_def arr_get_def Let_def)

theorem C6_world_hidden_until_calibration_witness:
  "\<not> world_objects_visible (scene example_state)
   \<and> \<not> calibration_received (Ev_update example_tick)
   \<and> \<not> calibration_received (Ev_draw (in_sm example_tick))
   \<and> map_option snd (ui_run example_consts
        [Ev_update example_tick, Ev_draw (in_sm example_tick)] example_state) = Some []
   \<and> updated example_calibration_sm ''liveCalibration''
   \<and> map_option (world_objects_visible \<circ> scene)
        (update_state example_consts 1 example_params example_calibration_sm example_state)
      = Some True"
  using C6_world_hidden_until_calibration [of example_consts 0 0 False example_state 1 example_params example_calibration_sm
      "[Ev_update example_tick, Ev_draw (in_sm example_tick)]"] example_run
    example_calibration_update_state
  by (auto simp: example_state_def UIScene_init_def example_tick_fields example_sm_def
      example_calibration_sm_def)

end
